theory Spec2Isabelle
  imports Main
begin

section \<open>Strings and errors\<close>

text \<open>
  A thrown value is represented by its rendering \<open>String(err)\<close>, which is what the
  callers inspect (\<open>String(err).includes(...)\<close>) and what the routes send back.
  \<open>new Error(m)\<close> renders as \<open>Error: m\<close>.
\<close>

type_synonym error = string

definition Error :: "string \<Rightarrow> error" where
  "Error m = ''Error: '' @ m"

text \<open>\<open>s.startsWith(p)\<close> and \<open>s.includes(p)\<close> of JavaScript strings.\<close>

fun startsWith :: "string \<Rightarrow> string \<Rightarrow> bool" where
  "startsWith s [] = True"
| "startsWith [] (c # p) = False"
| "startsWith (a # s) (c # p) = (a = c \<and> startsWith s p)"

fun includesStr :: "string \<Rightarrow> string \<Rightarrow> bool" where
  "includesStr [] p = (p = [])"
| "includesStr (a # s) p = (startsWith (a # s) p \<or> includesStr s p)"

text \<open>Decimal rendering of a number inside a template string.\<close>

definition digit :: "nat \<Rightarrow> char" where
  "digit d = ''0123456789'' ! (d mod 10)"

fun dec :: "nat \<Rightarrow> string" where
  "dec n = (if n < 10 then [digit n] else dec (n div 10) @ [digit n])"

declare dec.simps [simp del]

text \<open>
  \<open>encodeURIComponent\<close>, on a string given as its UTF-8 bytes: the unreserved
  characters (letters, digits and \<open>- _ . ! ~ * ' ( )\<close>) stay, every other byte becomes
  \<open>%XX\<close> with upper-case hexadecimal digits.
\<close>

definition unreserved :: "char \<Rightarrow> bool" where
  "unreserved c \<longleftrightarrow>
     c \<in> set (''ABCDEFGHIJKLMNOPQRSTUVWXYZabcdefghijklmnopqrstuvwxyz0123456789-_.!~*()''
               @ [CHR 0x27])"

definition hexdigit :: "nat \<Rightarrow> char" where
  "hexdigit n = ''0123456789ABCDEF'' ! (n mod 16)"

definition encodeURIComponent :: "string \<Rightarrow> string" where
  "encodeURIComponent s =
     concat (map (\<lambda>c. if unreserved c then [c]
                       else [CHR ''%'', hexdigit (of_char c div 16), hexdigit (of_char c)]) s)"

text \<open>Truthiness of an optional string: \<open>undefined\<close>, \<open>null\<close> and \<open>""\<close> are falsy.\<close>

fun truthy :: "string option \<Rightarrow> bool" where
  "truthy None = False"
| "truthy (Some s) = (s \<noteq> [])"

section \<open>Data model (server-context.ts, pw-session.ts)\<close>

record BrowserTab =
  targetId :: string
  title :: string
  url :: string
  wsUrl :: "string option"
  tab_type :: "string option"

text \<open>The shape of one element of \<open>/json/list\<close> and of the reply of \<open>/json/new\<close>.\<close>

record CdpTarget =
  cdp_id :: "string option"
  cdp_title :: "string option"
  cdp_url :: "string option"
  webSocketDebuggerUrl :: "string option"
  cdp_type :: "string option"

record BrowserExecutable =
  kind :: string
  path :: string

text \<open>
  \<open>RunningChrome\<close>; its \<open>proc\<close> field is the child process object, on which
  \<open>ensureBrowserAvailable\<close> registers the exit listener. The listener is kept in the
  world (\<open>exitListeners\<close> below).
\<close>

record RunningChrome =
  pid :: nat
  exe :: BrowserExecutable
  userDataDir :: string
  chrome_cdpPort :: nat
  startedAt :: nat

record ResolvedBrowserConfig =
  enabled :: bool
  controlUrl :: string
  controlPort :: nat
  cfg_cdpPort :: nat
  attachOnly :: bool
  headless :: bool
  color :: string

record BrowserServerState =
  port :: nat
  cdpPort :: nat
  running :: "RunningChrome option"
  resolved :: ResolvedBrowserConfig

type_synonym browser = nat

record ConnectedBrowser =
  browser :: browser
  endpoint :: string

text \<open>
  The module state of \<open>pw-session.ts\<close> for connections. \<open>cached\<close> and
  \<open>connecting\<close> are its two variables; \<open>connecting\<close> holds a promise, named here by
  the number of the connection attempt it belongs to. The rest is what the JavaScript
  runtime holds: every \<open>connectOverCDP\<close> call made so far with its endpoint and how
  far its promise chain has run (\<open>attempts\<close>, attempt \<open>a\<close> at index \<open>a\<close>), the
  callers suspended on an attempt's promise (\<open>awaiting\<close>), what \<open>connectBrowser\<close>
  has returned to whom (\<open>returned\<close>), and the browsers that carry the
  \<open>disconnected\<close> listener (\<open>observed\<close>).
\<close>

type_synonym caller = nat
type_synonym attempt = nat

datatype attempt_status =
    InFlight
  | Connected ConnectedBrowser
  | Refused error
  | Settled "error + ConnectedBrowser"

record pw_session =
  cached :: "ConnectedBrowser option"
  connecting :: "attempt option"
  attempts :: "(string \<times> attempt_status) list"
  awaiting :: "(caller \<times> attempt) list"
  returned :: "(caller \<times> (error + ConnectedBrowser)) list"
  observed :: "browser list"

definition pw_init :: pw_session where
  "pw_init = \<lparr> cached = None, connecting = None, attempts = [], awaiting = [],
                returned = [], observed = [] \<rparr>"

section \<open>The world: module state, clock, and the calls that leave the process\<close>

datatype http_method = GET | PUT

text \<open>
  Every call to something outside the modelled code is recorded, in order. The \<open>n\<close>-th
  call is answered by the environment's oracle for that kind of call at index \<open>n\<close>, so two
  calls of the same kind may be answered differently.
\<close>

datatype call =
    IsChromeReachable nat nat
  | LaunchClawdChrome
  | StopClawdChrome nat
  | CreateTargetViaCdp nat string
  | Fetch http_method string
  | SetTimeout nat
  | ServerClose
  | BrowserClose browser

text \<open>What \<open>fetch\<close> did: it rejected (network failure, abort on timeout), or it gave a
  response with \<open>ok\<close>, \<open>status\<close> and the outcome of \<open>res.json()\<close>.\<close>

datatype 'a fetched = Rejected error | Response bool nat "error + 'a"

text \<open>
  The environment. \<open>chrome.ts\<close> (\<open>isChromeReachable\<close>, \<open>launchClawdChrome\<close>,
  \<open>stopClawdChrome\<close>) and \<open>cdp.ts\<close> (\<open>createTargetViaCdp\<close>) are not among the
  sources: what they return is a parameter, as are the browser's HTTP replies and the
  duration of each call. A reply body has the type the caller casts it to.
\<close>

record env =
  isChromeReachable :: "nat \<Rightarrow> nat \<Rightarrow> nat \<Rightarrow> error + bool"
  launchClawdChrome :: "nat \<Rightarrow> ResolvedBrowserConfig \<Rightarrow> error + RunningChrome"
  stopClawdChrome :: "nat \<Rightarrow> RunningChrome \<Rightarrow> error option"
  createTargetViaCdp :: "nat \<Rightarrow> nat \<Rightarrow> string \<Rightarrow> error + string"
  json_list :: "nat \<Rightarrow> string \<Rightarrow> CdpTarget list fetched"
  json_new :: "nat \<Rightarrow> http_method \<Rightarrow> string \<Rightarrow> CdpTarget fetched"
  fetch_ok :: "nat \<Rightarrow> string \<Rightarrow> unit fetched"
  elapsed :: "nat \<Rightarrow> nat"

text \<open>
  \<open>getState\<close> is the module variable \<open>state\<close> of \<open>server.ts\<close> (what
  \<open>opts.getState()\<close> returns), \<open>pw\<close> the module state of \<open>pw-session.ts\<close>,
  \<open>now\<close> is \<open>Date.now()\<close>, and \<open>exitListeners\<close> holds the \<open>launched\<close> record of
  every exit listener registered so far.
\<close>

record world =
  getState :: "BrowserServerState option"
  pw :: pw_session
  exitListeners :: "RunningChrome list"
  now :: nat
  calls :: "call list"

definition seqno :: "world \<Rightarrow> nat" where
  "seqno w = length (calls w)"

text \<open>Issue one external call: log it and let its duration pass.\<close>

definition issue :: "env \<Rightarrow> call \<Rightarrow> world \<Rightarrow> world" where
  "issue e c w = w\<lparr> now := now w + elapsed e (seqno w), calls := calls w @ [c] \<rparr>"

text \<open>\<open>setTimeout(r, ms)\<close> awaited: at least \<open>ms\<close> pass.\<close>

definition sleep :: "env \<Rightarrow> nat \<Rightarrow> world \<Rightarrow> world" where
  "sleep e ms w = w\<lparr> now := now w + ms + elapsed e (seqno w), calls := calls w @ [SetTimeout ms] \<rparr>"

text \<open>\<open>setRunning\<close> as \<open>server.ts\<close> passes it: \<open>if (state) state.running = running\<close>.\<close>

definition setRunning :: "RunningChrome option \<Rightarrow> world \<Rightarrow> world" where
  "setRunning r w =
     (case getState w of
        None \<Rightarrow> w
      | Some s \<Rightarrow> w\<lparr> getState := Some (s\<lparr> running := r \<rparr>) \<rparr>)"

section \<open>pw-session.ts: connectBrowser as interleaved steps\<close>

text \<open>
  JavaScript runs one callback at a time, so the code between two suspension points is
  one atomic step. \<open>connectBrowser\<close> has these steps: the call itself up to its
  \<open>return\<close> or first \<open>await\<close>; the \<open>.then\<close> callback that runs when
  \<open>connectOverCDP\<close> has resolved; the \<open>.finally\<close> callback; the resumption of a caller
  suspended on \<open>connecting\<close>; and the \<open>disconnected\<close> listener. The scheduler and the
  browser choose the order; a step that is not enabled changes nothing.
\<close>

text \<open>\<open>cached?.endpoint === endpoint\<close>\<close>

definition cached_for :: "string \<Rightarrow> pw_session \<Rightarrow> ConnectedBrowser option" where
  "cached_for ep s =
     (case cached s of
        None \<Rightarrow> None
      | Some cur \<Rightarrow> if endpoint cur = ep then Some cur else None)"

text \<open>
  The call of \<open>connectBrowser(endpoint)\<close> by caller \<open>c\<close>: return the cached record of
  this endpoint; else await the attempt in flight; else start an attempt (one
  \<open>connectOverCDP\<close> call), store its promise in \<open>connecting\<close> and await it.
\<close>

definition connectBrowser :: "caller \<Rightarrow> string \<Rightarrow> pw_session \<Rightarrow> pw_session" where
  "connectBrowser c ep s =
     (case cached_for ep s of
        Some cur \<Rightarrow> s\<lparr> returned := returned s @ [(c, Inr cur)] \<rparr>
      | None \<Rightarrow>
          (case connecting s of
             Some a \<Rightarrow> s\<lparr> awaiting := awaiting s @ [(c, a)] \<rparr>
           | None \<Rightarrow>
               s\<lparr> connecting := Some (length (attempts s)),
                  attempts := attempts s @ [(ep, InFlight)],
                  awaiting := awaiting s @ [(c, length (attempts s))] \<rparr>))"

text \<open>
  The \<open>.then\<close> callback of attempt \<open>a\<close>, whose \<open>connectOverCDP\<close> resolved with
  browser \<open>b\<close>: set \<open>cached\<close> and register the \<open>disconnected\<close> listener.
  (\<open>observeBrowser\<close> touches the pages of the recorder and no variable of this
  section.)
\<close>

definition on_connected :: "attempt \<Rightarrow> browser \<Rightarrow> pw_session \<Rightarrow> pw_session" where
  "on_connected a b s =
     (if a < length (attempts s) \<and> snd (attempts s ! a) = InFlight then
        (let connected = \<lparr> browser = b, endpoint = fst (attempts s ! a) \<rparr>
         in s\<lparr> cached := Some connected,
               attempts := (attempts s)[a := (fst (attempts s ! a), Connected connected)],
               observed := observed s @ [b] \<rparr>)
      else s)"

text \<open>\<open>connectOverCDP\<close> of attempt \<open>a\<close> rejected: the \<open>.then\<close> callback is skipped.\<close>

definition on_refused :: "attempt \<Rightarrow> error \<Rightarrow> pw_session \<Rightarrow> pw_session" where
  "on_refused a err s =
     (if a < length (attempts s) \<and> snd (attempts s ! a) = InFlight
      then s\<lparr> attempts := (attempts s)[a := (fst (attempts s ! a), Refused err)] \<rparr>
      else s)"

text \<open>The \<open>.finally\<close> callback of attempt \<open>a\<close>: \<open>connecting = null\<close>; the promise that
  was stored in \<open>connecting\<close> settles.\<close>

definition on_finally :: "attempt \<Rightarrow> pw_session \<Rightarrow> pw_session" where
  "on_finally a s =
     (if a < length (attempts s) then
        (case snd (attempts s ! a) of
           Connected connected \<Rightarrow>
             s\<lparr> connecting := None,
                attempts := (attempts s)[a := (fst (attempts s ! a), Settled (Inr connected))] \<rparr>
         | Refused err \<Rightarrow>
             s\<lparr> connecting := None,
                attempts := (attempts s)[a := (fst (attempts s ! a), Settled (Inl err))] \<rparr>
         | _ \<Rightarrow> s)
      else s)"

text \<open>Caller \<open>c\<close>, suspended on a settled attempt, resumes: \<open>return await connecting\<close>.\<close>

definition resume :: "caller \<Rightarrow> pw_session \<Rightarrow> pw_session" where
  "resume c s =
     (case find (\<lambda>(c', a). c' = c \<and> a < length (attempts s)
                   \<and> (case snd (attempts s ! a) of Settled r \<Rightarrow> True | _ \<Rightarrow> False))
                (awaiting s) of
        None \<Rightarrow> s
      | Some (c', a) \<Rightarrow>
          (case snd (attempts s ! a) of
             Settled r \<Rightarrow> s\<lparr> awaiting := remove1 (c', a) (awaiting s),
                              returned := returned s @ [(c, r)] \<rparr>
           | _ \<Rightarrow> s))"

text \<open>The \<open>disconnected\<close> listener of browser \<open>b\<close>:
  \<open>if (cached?.browser === browser) cached = null\<close>.\<close>

definition on_disconnected :: "browser \<Rightarrow> pw_session \<Rightarrow> pw_session" where
  "on_disconnected b s =
     (if b \<in> set (observed s) then
        (case cached s of
           None \<Rightarrow> s
         | Some cur \<Rightarrow> if browser cur = b then s\<lparr> cached := None \<rparr> else s)
      else s)"

datatype pw_event =
    Call caller string
  | Resolves attempt browser
  | Rejects attempt error
  | Finally attempt
  | Resume caller
  | Disconnected browser
  | CloseConnection

fun pw_step :: "pw_event \<Rightarrow> pw_session \<Rightarrow> pw_session" where
  "pw_step (Call c ep) s = connectBrowser c ep s"
| "pw_step (Resolves a b) s = on_connected a b s"
| "pw_step (Rejects a err) s = on_refused a err s"
| "pw_step (Finally a) s = on_finally a s"
| "pw_step (Resume c) s = resume c s"
| "pw_step (Disconnected b) s = on_disconnected b s"
| "pw_step CloseConnection s = s\<lparr> cached := None \<rparr>"






section \<open>server-context.ts: createBrowserRouteContext\<close>

definition fetchJson :: "'a fetched \<Rightarrow> error + 'a" where
  "fetchJson f =
     (case f of
        Rejected err \<Rightarrow> Inl err
      | Response isok st body \<Rightarrow> if \<not> isok then Inl (Error (''HTTP '' @ dec st)) else body)"

definition fetchOk :: "unit fetched \<Rightarrow> error + unit" where
  "fetchOk f =
     (case f of
        Rejected err \<Rightarrow> Inl err
      | Response isok st body \<Rightarrow> if \<not> isok then Inl (Error (''HTTP '' @ dec st)) else Inr ())"

definition state :: "world \<Rightarrow> error + BrowserServerState" where
  "state w =
     (case getState w of
        None \<Rightarrow> Inl (Error ''Browser server not started'')
      | Some current \<Rightarrow> Inr current)"

definition isReachable :: "env \<Rightarrow> nat option \<Rightarrow> world \<Rightarrow> (error + bool) \<times> world" where
  "isReachable e timeoutMs w =
     (case state w of
        Inl err \<Rightarrow> (Inl err, w)
      | Inr current \<Rightarrow>
          (let t = (case timeoutMs of None \<Rightarrow> 300 | Some t \<Rightarrow> t)
           in (isChromeReachable e (seqno w) (cdpPort current) t,
               issue e (IsChromeReachable (cdpPort current) t) w)))"

text \<open>
  The exit listener that \<open>ensureBrowserAvailable\<close> registers on \<open>launched.proc\<close>:
  \<open>if (live?.running?.pid === launched.pid) opts.setRunning(null)\<close>.
\<close>

definition exit_listener :: "RunningChrome \<Rightarrow> world \<Rightarrow> world" where
  "exit_listener launched w =
     (case getState w of
        None \<Rightarrow> w
      | Some live \<Rightarrow>
          (case running live of
             None \<Rightarrow> w
           | Some r \<Rightarrow> if pid r = pid launched then setRunning None w else w))"

text \<open>The process \<open>launched.proc\<close> exits: its registered listeners run.\<close>

definition proc_exit :: "RunningChrome \<Rightarrow> world \<Rightarrow> world" where
  "proc_exit launched w = (if launched \<in> set (exitListeners w) then exit_listener launched w else w)"

definition ensureBrowserAvailable :: "env \<Rightarrow> world \<Rightarrow> (error + unit) \<times> world" where
  "ensureBrowserAvailable e w =
     (case state w of
        Inl err \<Rightarrow> (Inl err, w)
      | Inr current \<Rightarrow>
          (case isReachable e None w of
             (Inl err, w1) \<Rightarrow> (Inl err, w1)
           | (Inr True, w1) \<Rightarrow> (Inr (), w1)
           | (Inr False, w1) \<Rightarrow>
               if attachOnly (resolved current)
               then (Inl (Error ''Browser attachOnly is enabled and no browser is running.''), w1)
               else
                 (case launchClawdChrome e (seqno w1) (resolved current) of
                    Inl err \<Rightarrow> (Inl err, issue e LaunchClawdChrome w1)
                  | Inr launched \<Rightarrow>
                      (let w2 = setRunning (Some launched) (issue e LaunchClawdChrome w1)
                       in (Inr (), w2\<lparr> exitListeners := exitListeners w2 @ [launched] \<rparr>)))))"

text \<open>
  What may run while a call is suspended on an \<open>await\<close>: a step of the connection code
  of \<open>pw-session.ts\<close> (among them the \<open>disconnected\<close> listener of a browser), or
  the exit of a launched process, which runs its exit listener.
\<close>

datatype async_event = Pw pw_event | ProcExit RunningChrome

fun async_step :: "async_event \<Rightarrow> world \<Rightarrow> world" where
  "async_step (Pw ev) w = w\<lparr> pw := pw_step ev (pw w) \<rparr>"
| "async_step (ProcExit launched) w = proc_exit launched w"

fun async_run :: "async_event list \<Rightarrow> world \<Rightarrow> world" where
  "async_run [] w = w"
| "async_run (ev # evs) w = async_run evs (async_step ev w)"

text \<open>
  \<open>stopRunningBrowser\<close>; the result is the \<open>stopped\<close> field of the object returned.
  \<open>during\<close> are the events that run while the call waits for \<open>stopClawdChrome\<close>;
  when no process is tracked the call returns without waiting.
\<close>

definition stopRunningBrowser ::
  "env \<Rightarrow> async_event list \<Rightarrow> world \<Rightarrow> (error + bool) \<times> world" where
  "stopRunningBrowser e during w =
     (case state w of
        Inl err \<Rightarrow> (Inl err, w)
      | Inr current \<Rightarrow>
          (case running current of
             None \<Rightarrow> (Inr False, w)
           | Some r \<Rightarrow>
               (let w1 = async_run during (issue e (StopClawdChrome (pid r)) w)
                in (case stopClawdChrome e (seqno w) r of
                      Some err \<Rightarrow> (Inl err, w1)
                    | None \<Rightarrow> (Inr True, setRunning None w1)))))"






section \<open>Tabs: listing, resolution, opening (server-context.ts)\<close>

definition toTab :: "CdpTarget \<Rightarrow> BrowserTab" where
  "toTab t =
     \<lparr> targetId = (case cdp_id t of None \<Rightarrow> [] | Some i \<Rightarrow> i),
       title = (case cdp_title t of None \<Rightarrow> [] | Some s \<Rightarrow> s),
       url = (case cdp_url t of None \<Rightarrow> [] | Some u \<Rightarrow> u),
       wsUrl = webSocketDebuggerUrl t,
       tab_type = cdp_type t \<rparr>"

definition list_url :: "nat \<Rightarrow> string" where
  "list_url p = ''http://127.0.0.1:'' @ dec p @ ''/json/list''"

definition listTabs :: "env \<Rightarrow> world \<Rightarrow> (error + BrowserTab list) \<times> world" where
  "listTabs e w =
     (case state w of
        Inl err \<Rightarrow> (Inl err, w)
      | Inr current \<Rightarrow>
          (let u = list_url (cdpPort current);
               w1 = issue e (Fetch GET u) w
           in (case fetchJson (json_list e (seqno w) u) of
                 Inl err \<Rightarrow> (Inl err, w1)
               | Inr raw \<Rightarrow> (Inr (filter (\<lambda>t. targetId t \<noteq> []) (map toTab raw)), w1))))"

lemma now_issue: "now w \<le> now (issue e c w)"
  by (simp add: issue_def)

lemma now_listTabs: "now w \<le> now (snd (listTabs e w))"
  by (simp add: listTabs_def Let_def now_issue split: sum.splits)

lemma now_sleep: "now w + ms \<le> now (sleep e ms w)"
  by (simp add: sleep_def)

text \<open>The tab \<open>openTab\<close> returns when the listing never showed the created target.\<close>

definition stub_tab :: "string \<Rightarrow> string \<Rightarrow> BrowserTab" where
  "stub_tab createdViaCdp u =
     \<lparr> targetId = createdViaCdp, title = [], url = u, wsUrl = None, tab_type = Some ''page'' \<rparr>"

text \<open>
  The polling loop of \<open>openTab\<close>: while \<open>Date.now() < deadline\<close>, list the tabs (a
  failed listing counts as empty), return the tab with the created id if it is there,
  otherwise wait 100 ms.
\<close>

function poll_created :: "env \<Rightarrow> string \<Rightarrow> string \<Rightarrow> nat \<Rightarrow> world \<Rightarrow> BrowserTab \<times> world" where
  "poll_created e createdViaCdp u deadline w =
     (if now w < deadline then
        (let lw = listTabs e w;
             tabs = (case fst lw of Inl err \<Rightarrow> [] | Inr ts \<Rightarrow> ts)
         in (case find (\<lambda>t. targetId t = createdViaCdp) tabs of
               Some found \<Rightarrow> (found, snd lw)
             | None \<Rightarrow> poll_created e createdViaCdp u deadline (sleep e 100 (snd lw))))
      else (stub_tab createdViaCdp u, w))"
  by pat_completeness auto
termination
proof (relation "measure (\<lambda>(e, c, u, deadline, w). deadline - now w)")
  show "wf (measure (\<lambda>(e, c, u, deadline, w). deadline - now w))" by simp
next
  fix e :: env and createdViaCdp u :: string and deadline :: nat and w :: world
    and lw tabs
  assume "now w < deadline" and lw: "lw = listTabs e w"
  have "now w \<le> now (snd lw)" unfolding lw by (rule now_listTabs)
  moreover have "now (snd lw) + 100 \<le> now (sleep e 100 (snd lw))" by (rule now_sleep)
  ultimately have "now w < now (sleep e 100 (snd lw))" by simp
  with \<open>now w < deadline\<close>
  show "((e, createdViaCdp, u, deadline, sleep e 100 (snd lw)), (e, createdViaCdp, u, deadline, w))
          \<in> measure (\<lambda>(e, c, u, deadline, w). deadline - now w)"
    by simp
qed

declare poll_created.simps [simp del]

definition new_url :: "nat \<Rightarrow> string \<Rightarrow> string" where
  "new_url p u = ''http://127.0.0.1:'' @ dec p @ ''/json/new?'' @ encodeURIComponent u"

text \<open>The object \<open>openTab\<close> returns for the reply \<open>created\<close> of \<open>/json/new\<close>.\<close>

definition created_tab :: "string \<Rightarrow> CdpTarget \<Rightarrow> BrowserTab" where
  "created_tab u created =
     \<lparr> targetId = (case cdp_id created of None \<Rightarrow> [] | Some i \<Rightarrow> i),
       title = (case cdp_title created of None \<Rightarrow> [] | Some s \<Rightarrow> s),
       url = (case cdp_url created of None \<Rightarrow> u | Some cu \<Rightarrow> cu),
       wsUrl = webSocketDebuggerUrl created,
       tab_type = cdp_type created \<rparr>"

definition openTab :: "env \<Rightarrow> string \<Rightarrow> world \<Rightarrow> (error + BrowserTab) \<times> world" where
  "openTab e u w =
     (case state w of
        Inl err \<Rightarrow> (Inl err, w)
      | Inr current \<Rightarrow>
          (let createdViaCdp =
                 (case createTargetViaCdp e (seqno w) (cdpPort current) u of
                    Inl err \<Rightarrow> None
                  | Inr tid \<Rightarrow> Some tid);
               w1 = issue e (CreateTargetViaCdp (cdpPort current) u) w
           in if truthy createdViaCdp then
                (case poll_created e (the createdViaCdp) u (now w1 + 2000) w1 of
                   (tab, w2) \<Rightarrow> (Inr tab, w2))
              else
                (let endpoint = new_url (cdpPort current) u;
                     w2 = issue e (Fetch PUT endpoint) w1;
                     cw = (case fetchJson (json_new e (seqno w1) PUT endpoint) of
                             Inr c \<Rightarrow> (Inr c, w2)
                           | Inl err \<Rightarrow>
                               if includesStr err ''HTTP 405''
                               then (fetchJson (json_new e (seqno w2) GET endpoint),
                                     issue e (Fetch GET endpoint) w2)
                               else (Inl err, w2))
                 in (case fst cw of
                       Inl err \<Rightarrow> (Inl err, snd cw)
                     | Inr created \<Rightarrow>
                         if \<not> truthy (cdp_id created)
                         then (Inl (Error ''Failed to open tab (missing id)''), snd cw)
                         else (Inr (created_tab u created), snd cw)))))"

datatype reason = ambiguous | not_found | no_tabs

datatype resolution = Resolved string | Unresolved reason

text \<open>
  Modelled from the spec: \<open>resolveTargetIdFromTabs\<close> of \<open>target-id.ts\<close>, which is not
  among the sources. The spec's contract \<open>resolve(identifier, tabs)\<close>: an empty
  identifier gives the first tab, or a no-tabs condition on an empty listing; an
  identifier equal to a tab id gives that tab; otherwise the tabs whose id starts with
  the identifier are collected, and exactly one gives it, more than one is ambiguous,
  none is not found. The result has the shape its callers read:
  \<open>ok\<close> with \<open>targetId\<close>, or a \<open>reason\<close>.
\<close>

definition resolveTargetIdFromTabs :: "string \<Rightarrow> BrowserTab list \<Rightarrow> resolution" where
  "resolveTargetIdFromTabs identifier tabs =
     (if identifier = [] then
        (case tabs of [] \<Rightarrow> Unresolved no_tabs | t # rest \<Rightarrow> Resolved (targetId t))
      else
        (case find (\<lambda>t. targetId t = identifier) tabs of
           Some t \<Rightarrow> Resolved (targetId t)
         | None \<Rightarrow>
             (case filter (\<lambda>t. startsWith (targetId t) identifier) tabs of
                [] \<Rightarrow> Unresolved not_found
              | [t] \<Rightarrow> Resolved (targetId t)
              | t # t' # rest \<Rightarrow> Unresolved ambiguous)))"

text \<open>The value \<open>chosen\<close> of \<open>ensureTabAvailable\<close>: a tab, null, or the marker.\<close>

datatype chosen = AMBIGUOUS | Tab BrowserTab | Null

definition chooseTab :: "string option \<Rightarrow> BrowserTab list \<Rightarrow> chosen" where
  "chooseTab tid tabs =
     (if truthy tid then
        (case resolveTargetIdFromTabs (the tid) tabs of
           Unresolved r \<Rightarrow> if r = ambiguous then AMBIGUOUS else Null
         | Resolved rid \<Rightarrow>
             (case find (\<lambda>t. targetId t = rid) tabs of Some t \<Rightarrow> Tab t | None \<Rightarrow> Null))
      else (case tabs of [] \<Rightarrow> Null | t # rest \<Rightarrow> Tab t))"

text \<open>The end of \<open>ensureTabAvailable\<close>: the two throws, then \<open>return chosen\<close>.\<close>

definition returnChosen :: "chosen \<Rightarrow> error + BrowserTab" where
  "returnChosen c =
     (case c of
        AMBIGUOUS \<Rightarrow> Inl (Error ''ambiguous target id prefix'')
      | Null \<Rightarrow> Inl (Error ''tab not found'')
      | Tab t \<Rightarrow> if truthy (wsUrl t) then Inr t else Inl (Error ''tab not found''))"

definition ensureTabAvailable :: "env \<Rightarrow> string option \<Rightarrow> world \<Rightarrow> (error + BrowserTab) \<times> world" where
  "ensureTabAvailable e tid w =
     (case ensureBrowserAvailable e w of
        (Inl err, w1) \<Rightarrow> (Inl err, w1)
      | (Inr u, w1) \<Rightarrow>
          (case listTabs e w1 of
             (Inl err, w2) \<Rightarrow> (Inl err, w2)
           | (Inr tabs1, w2) \<Rightarrow>
               (case (if length tabs1 = 0 then
                        (case openTab e ''about:blank'' w2 of
                           (Inl err, w3) \<Rightarrow> (Some err, w3)
                         | (Inr opened, w3) \<Rightarrow> (None, w3))
                      else (None, w2)) of
                  (Some err, w3) \<Rightarrow> (Inl err, w3)
                | (None, w3) \<Rightarrow>
                    (case listTabs e w3 of
                       (Inl err, w4) \<Rightarrow> (Inl err, w4)
                     | (Inr tabs, w4) \<Rightarrow> (returnChosen (chooseTab tid tabs), w4)))))"

definition activate_url :: "nat \<Rightarrow> string \<Rightarrow> string" where
  "activate_url p tid = ''http://127.0.0.1:'' @ dec p @ ''/json/activate/'' @ tid"

definition focusTab :: "env \<Rightarrow> string \<Rightarrow> world \<Rightarrow> (error + unit) \<times> world" where
  "focusTab e tid w =
     (case state w of
        Inl err \<Rightarrow> (Inl err, w)
      | Inr current \<Rightarrow>
          (case listTabs e w of
             (Inl err, w1) \<Rightarrow> (Inl err, w1)
           | (Inr tabs, w1) \<Rightarrow>
               (case resolveTargetIdFromTabs tid tabs of
                  Unresolved r \<Rightarrow>
                    if r = ambiguous then (Inl (Error ''ambiguous target id prefix''), w1)
                    else (Inl (Error ''tab not found''), w1)
                | Resolved rid \<Rightarrow>
                    (fetchOk (fetch_ok e (seqno w1) (activate_url (cdpPort current) rid)),
                     issue e (Fetch GET (activate_url (cdpPort current) rid)) w1))))"

definition mapTabError :: "error \<Rightarrow> (nat \<times> string) option" where
  "mapTabError err =
     (if includesStr err ''ambiguous target id prefix'' then Some (409, ''ambiguous target id prefix'')
      else if includesStr err ''tab not found'' then Some (404, ''tab not found'')
      else None)"

text \<open>
  For stating what \<open>openTab\<close> does: the calls of \<open>k\<close> rounds of the polling loop
  (a listing, then a 100 ms wait), and the listing a poll would see in a world.
\<close>

definition poll_calls :: "nat \<Rightarrow> nat \<Rightarrow> call list" where
  "poll_calls k p = concat (replicate k [Fetch GET (list_url p), SetTimeout 100])"

definition listed :: "env \<Rightarrow> world \<Rightarrow> BrowserTab list" where
  "listed e w = (case fst (listTabs e w) of Inl err \<Rightarrow> [] | Inr ts \<Rightarrow> ts)"

text \<open>What \<open>ensureTabAvailable\<close> does with a tab it has selected.\<close>

definition guarded :: "BrowserTab \<Rightarrow> error + BrowserTab" where
  "guarded t = (if truthy (wsUrl t) then Inr t else Inl (Error ''tab not found''))"

text \<open>The world at the start of the \<open>j\<close>-th round of the polling loop that starts in
  \<open>w\<close>: each earlier round listed the tabs and waited 100 ms.\<close>

fun poll_world :: "env \<Rightarrow> nat \<Rightarrow> world \<Rightarrow> world" where
  "poll_world e 0 w = w"
| "poll_world e (Suc j) w = poll_world e j (sleep e 100 (snd (listTabs e w)))"

section \<open>Page Event Recorder (pw-session.ts: ensurePageState)\<close>

text \<open>
  The recorder keeps one \<open>PageState\<close> per observed page (the module-level
  \<open>pageStates\<close> table). A page and a request are JavaScript objects used as keys
  by identity; the model names them by natural numbers. The entry created by the
  \<open>request\<close> listener is one object shared by the \<open>network\<close> array and the
  \<open>requestMap\<close>, so the model keeps the entry objects in a store (\<open>entries\<close>)
  and lets both the array and the map hold references into it.
\<close>

type_synonym page = nat

record location =
  loc_url :: "string option"
  lineNumber :: "int option"
  columnNumber :: "int option"


record BrowserNetworkRequest =
  req_url :: string
  req_method :: string
  resourceType :: "string option"
  status :: "int option"
  ok :: "bool option"
  fromCache :: "bool option"
  failureText :: "string option"
  req_timestamp :: string



















section \<open>A concrete environment (the fakes of server.test.ts)\<close>

definition test_tabs :: "CdpTarget list" where
  "test_tabs =
     [\<lparr> cdp_id = Some ''abcd1234'', cdp_title = Some ''Tab'', cdp_url = Some ''https://example.com'',
         webSocketDebuggerUrl = Some ''ws://127.0.0.1/devtools/page/abcd1234'',
         cdp_type = Some ''page'' \<rparr>,
      \<lparr> cdp_id = Some ''abce9999'', cdp_title = Some ''Other'', cdp_url = Some ''https://other'',
         webSocketDebuggerUrl = Some ''ws://127.0.0.1/devtools/page/abce9999'',
         cdp_type = Some ''page'' \<rparr>]"

definition test_newtab :: CdpTarget where
  "test_newtab =
     \<lparr> cdp_id = Some ''newtab1'', cdp_title = Some [], cdp_url = Some ''about:blank'',
       webSocketDebuggerUrl = Some ''ws://127.0.0.1/devtools/page/newtab1'',
       cdp_type = Some ''page'' \<rparr>"

definition test_chrome :: "nat \<Rightarrow> RunningChrome" where
  "test_chrome p =
     \<lparr> pid = p, exe = \<lparr> kind = ''chrome'', path = ''/fake/chrome'' \<rparr>,
       userDataDir = ''/tmp/clawd'', chrome_cdpPort = 18792, startedAt = 0 \<rparr>"

text \<open>
  \<open>reachable\<close> is the flag of the test file; \<open>listing\<close> answers the \<open>n\<close>-th call when
  it is a \<open>/json/list\<close> request; \<open>created\<close> is what \<open>createTargetViaCdp\<close> gives.
  A PUT on \<open>/json/new\<close> is answered with a 405, as the first one of the test file
  is, and the \<open>n\<close>-th call, when it is a launch, starts the process \<open>100 + n\<close>.
\<close>

definition test_env :: "bool \<Rightarrow> (nat \<Rightarrow> CdpTarget list) \<Rightarrow> error + string \<Rightarrow> env" where
  "test_env reachable listing created =
     \<lparr> isChromeReachable = (\<lambda>n p t. Inr reachable),
       launchClawdChrome = (\<lambda>n cfg. Inr (test_chrome (100 + n))),
       stopClawdChrome = (\<lambda>n r. None),
       createTargetViaCdp = (\<lambda>n p u. created),
       json_list = (\<lambda>n u. Response True 200 (Inr (listing n))),
       json_new = (\<lambda>n m u. if m = PUT then Response False 405 (Inr test_newtab)
                             else Response True 200 (Inr test_newtab)),
       fetch_ok = (\<lambda>n u. Response True 200 (Inr ())),
       elapsed = (\<lambda>n. 1) \<rparr>"

definition test_config :: "bool \<Rightarrow> ResolvedBrowserConfig" where
  "test_config attach =
     \<lparr> enabled = True, controlUrl = ''http://127.0.0.1:18791'', controlPort = 18791,
       cfg_cdpPort = 18792, attachOnly = attach, headless = True, color = ''#FF4500'' \<rparr>"

definition test_state :: "bool \<Rightarrow> RunningChrome option \<Rightarrow> BrowserServerState" where
  "test_state attach r =
     \<lparr> port = 18791, cdpPort = 18792, running = r, resolved = test_config attach \<rparr>"

definition test_world :: "BrowserServerState option \<Rightarrow> ConnectedBrowser option \<Rightarrow> world" where
  "test_world s c = \<lparr> getState = s, pw = pw_init\<lparr> cached := c \<rparr>, exitListeners = [],
                      now = 0, calls = [] \<rparr>"

text \<open>
  A run of the lifecycle: launch (process 101), stop, launch again (process 104). In the
  last world the exit listeners of both processes are registered and 104 is tracked.
\<close>

definition world_first :: world where
  "world_first =
     snd (ensureBrowserAvailable (test_env False (\<lambda>n. []) (Inl ''off''))
            (test_world (Some (test_state False None)) None))"

definition world_stopped :: world where
  "world_stopped = snd (stopRunningBrowser (test_env False (\<lambda>n. []) (Inl ''off'')) [] world_first)"

definition world_second :: world where
  "world_second = snd (ensureBrowserAvailable (test_env False (\<lambda>n. []) (Inl ''off'')) world_stopped)"

text \<open>The listing of the test file: two tabs, \<open>abcd1234\<close> and \<open>abce9999\<close>.\<close>

definition test_listing :: "BrowserTab list" where
  "test_listing = map toTab test_tabs"





section \<open>Process lifecycle\<close>



lemma getState_issue: "getState (issue e c w) = getState w"
  by (simp add: issue_def)

lemma calls_issue: "calls (issue e c w) = calls w @ [c]"
  by (simp add: issue_def)

text \<open>
  C8, as amended. When the control plane is started, \<open>reachable(timeoutMs)\<close> issues
  exactly one probe, with the given timeout (300 ms when omitted), and returns the
  boolean the probe gives, adding no failure of its own. When the control plane is not
  started it fails with "Browser server not started" and probes nothing.
\<close>

theorem isReachable_started:
  "(getState w = Some current \<and>
      isChromeReachable e (seqno w) (cdpPort current) (case timeoutMs of None \<Rightarrow> 300 | Some t \<Rightarrow> t) = Inr b
      \<longrightarrow> fst (isReachable e timeoutMs w) = Inr b
          \<and> calls (snd (isReachable e timeoutMs w))
              = calls w @ [IsChromeReachable (cdpPort current) (case timeoutMs of None \<Rightarrow> 300 | Some t \<Rightarrow> t)]
          \<and> getState (snd (isReachable e timeoutMs w)) = getState w)
   \<and> (getState w0 = None
      \<longrightarrow> isReachable e timeoutMs w0 = (Inl (Error ''Browser server not started''), w0))"
  by (simp add: isReachable_def state_def Let_def calls_issue getState_issue)

theorem isReachable_started_witness:
  "fst (isReachable (test_env True (\<lambda>n. test_tabs) (Inl ''off'')) None
          (test_world (Some (test_state False None)) None)) = Inr True
   \<and> calls (snd (isReachable (test_env True (\<lambda>n. test_tabs) (Inl ''off'')) None
          (test_world (Some (test_state False None)) None))) = [IsChromeReachable 18792 300]
   \<and> isReachable (test_env True (\<lambda>n. test_tabs) (Inl ''off'')) None (test_world None None)
       = (Inl (Error ''Browser server not started''), test_world None None)"
  using isReachable_started [of "test_world (Some (test_state False None)) None"
      "test_state False None" "test_env True (\<lambda>n. test_tabs) (Inl ''off'')" None True
      "test_world None None"]
  by (simp add: test_world_def test_state_def test_env_def)

text \<open>
  C8 as stated (a boolean in every state of the control plane, never a throw) fails
  when the control plane is not started: the call throws.
\<close>

theorem isReachable_throws_when_not_started:
  "fst (isReachable (test_env False (\<lambda>n. []) (Inl ''off'')) (Some 300) (test_world None None))
     = Inl ''Error: Browser server not started''"
  by (simp add: isReachable_def state_def test_world_def Error_def)

text \<open>
  C6. With the control plane started: when the probe says the browser is not reachable
  and attach-only is configured, \<open>ensureBrowserAvailable\<close> fails with the attach-only
  error; when the probe says it is reachable, it returns normally. In both cases the
  probe is the only call made (no launch is attempted) and nothing of the state changes.
\<close>

theorem ensureBrowserAvailable_no_launch:
  assumes "getState w = Some current"
    and "isChromeReachable e (seqno w) (cdpPort current) 300 = Inr reachable"
    and "reachable \<or> attachOnly (resolved current)"
  shows "fst (ensureBrowserAvailable e w)
           = (if reachable then Inr ()
              else Inl (Error ''Browser attachOnly is enabled and no browser is running.''))
         \<and> calls (snd (ensureBrowserAvailable e w)) = calls w @ [IsChromeReachable (cdpPort current) 300]
         \<and> LaunchClawdChrome \<notin> set (calls (snd (ensureBrowserAvailable e w))) - set (calls w)
         \<and> getState (snd (ensureBrowserAvailable e w)) = getState w
         \<and> exitListeners (snd (ensureBrowserAvailable e w)) = exitListeners w"
  using assms
  by (auto simp: ensureBrowserAvailable_def isReachable_def state_def Let_def issue_def)

theorem ensureBrowserAvailable_no_launch_witness:
  "fst (ensureBrowserAvailable (test_env False (\<lambda>n. []) (Inl ''off''))
          (test_world (Some (test_state True None)) None))
     = Inl ''Error: Browser attachOnly is enabled and no browser is running.''
   \<and> calls (snd (ensureBrowserAvailable (test_env False (\<lambda>n. []) (Inl ''off''))
          (test_world (Some (test_state True None)) None))) = [IsChromeReachable 18792 300]
   \<and> getState (snd (ensureBrowserAvailable (test_env False (\<lambda>n. []) (Inl ''off''))
          (test_world (Some (test_state True None)) None))) = Some (test_state True None)
   \<and> fst (ensureBrowserAvailable (test_env True (\<lambda>n. test_tabs) (Inl ''off''))
          (test_world (Some (test_state False None)) None)) = Inr ()
   \<and> calls (snd (ensureBrowserAvailable (test_env True (\<lambda>n. test_tabs) (Inl ''off''))
          (test_world (Some (test_state False None)) None))) = [IsChromeReachable 18792 300]"
  using ensureBrowserAvailable_no_launch [of "test_world (Some (test_state True None)) None"
      "test_state True None" "test_env False (\<lambda>n. []) (Inl ''off'')" False]
    ensureBrowserAvailable_no_launch [of "test_world (Some (test_state False None)) None"
      "test_state False None" "test_env True (\<lambda>n. test_tabs) (Inl ''off'')" True]
  by (simp add: test_world_def test_state_def test_env_def test_config_def seqno_def Error_def)


lemma calls_async_step: "calls (async_step ev w) = calls w"
  by (cases ev) (simp_all add: proc_exit_def exit_listener_def setRunning_def split: option.splits)

lemma calls_async_run: "calls (async_run during w) = calls w"
  by (induction during arbitrary: w) (simp_all add: calls_async_step)

text \<open>No event of a wait removes the server state or changes more of it than the handle.\<close>

lemma getState_async_step:
  assumes "getState w = Some c"
  shows "\<exists>c'. getState (async_step ev w) = Some c' \<and> c'\<lparr> running := None \<rparr> = c\<lparr> running := None \<rparr>"
proof (cases ev)
  case (Pw x)
  with assms show ?thesis by simp
next
  case (ProcExit launched)
  with assms show ?thesis
    by (simp add: proc_exit_def exit_listener_def setRunning_def split: option.splits)
qed

lemma getState_async_run:
  assumes "getState w = Some c"
  shows "\<exists>c'. getState (async_run during w) = Some c' \<and> c'\<lparr> running := None \<rparr> = c\<lparr> running := None \<rparr>"
  using assms
proof (induction during arbitrary: w c)
  case Nil
  then show ?case by simp
next
  case (Cons ev during)
  from getState_async_step [OF Cons.prems, of ev]
  obtain c1 where s1: "getState (async_step ev w) = Some c1"
    and e1: "c1\<lparr> running := None \<rparr> = c\<lparr> running := None \<rparr>" by blast
  from Cons.IH [OF s1]
  obtain c2 where s2: "getState (async_run during (async_step ev w)) = Some c2"
    and e2: "c2\<lparr> running := None \<rparr> = c1\<lparr> running := None \<rparr>" by blast
  from s2 e2 e1 show ?case by simp
qed

lemma stopRunningBrowser_tracked:
  assumes "getState w = Some current" and "running current = Some r"
    and "stopClawdChrome e (seqno w) r = None"
  shows "fst (stopRunningBrowser e during w) = Inr True"
    and "getState (snd (stopRunningBrowser e during w)) = Some (current\<lparr> running := None \<rparr>)"
    and "calls (snd (stopRunningBrowser e during w)) = calls w @ [StopClawdChrome (pid r)]"
proof -
  let ?w1 = "async_run during (issue e (StopClawdChrome (pid r)) w)"
  have res: "stopRunningBrowser e during w = (Inr True, setRunning None ?w1)"
    using assms by (simp add: stopRunningBrowser_def state_def)
  have "getState (issue e (StopClawdChrome (pid r)) w) = Some current"
    using assms(1) by (simp add: getState_issue)
  from getState_async_run [OF this, of during]
  obtain c' where s: "getState ?w1 = Some c'"
    and eq: "c'\<lparr> running := None \<rparr> = current\<lparr> running := None \<rparr>" by blast
  show "fst (stopRunningBrowser e during w) = Inr True" by (simp add: res)
  show "getState (snd (stopRunningBrowser e during w)) = Some (current\<lparr> running := None \<rparr>)"
    using s eq by (simp add: res setRunning_def)
  have "calls (setRunning None ?w1) = calls ?w1"
    by (simp add: setRunning_def split: option.splits)
  then show "calls (snd (stopRunningBrowser e during w)) = calls w @ [StopClawdChrome (pid r)]"
    by (simp add: res calls_async_run calls_issue)
qed

text \<open>
  C7, as amended. With the control plane started: when no process is tracked,
  \<open>stop()\<close> returns \<open>stopped: false\<close>, raises nothing and leaves the world as it was.
  When a process is tracked and its termination completes, \<open>stop()\<close> returns
  \<open>stopped: true\<close>, the handle is cleared whatever ran during the wait, and a second
  \<open>stop()\<close> is the no-op again. When the control plane is not started, \<open>stop()\<close> throws
  "Browser server not started"; when the termination throws, \<open>stop()\<close> throws that
  error and does not clear the handle.
\<close>

theorem stopRunningBrowser_idempotent:
  "(getState w = Some current \<and> running current = None
      \<longrightarrow> stopRunningBrowser e during w = (Inr False, w))
   \<and> (getState w' = Some current' \<and> running current' = Some r \<and> stopClawdChrome e (seqno w') r = None
      \<longrightarrow> fst (stopRunningBrowser e during w') = Inr True
          \<and> getState (snd (stopRunningBrowser e during w')) = Some (current'\<lparr> running := None \<rparr>)
          \<and> calls (snd (stopRunningBrowser e during w')) = calls w' @ [StopClawdChrome (pid r)]
          \<and> stopRunningBrowser e again (snd (stopRunningBrowser e during w'))
              = (Inr False, snd (stopRunningBrowser e during w')))
   \<and> (getState w0 = None
      \<longrightarrow> stopRunningBrowser e during w0 = (Inl (Error ''Browser server not started''), w0))
   \<and> (getState w' = Some current' \<and> running current' = Some r \<and> stopClawdChrome e' (seqno w') r = Some err
      \<longrightarrow> fst (stopRunningBrowser e' during w') = Inl err
          \<and> getState (snd (stopRunningBrowser e' [] w')) = Some current')"
proof (intro conjI impI)
  assume "getState w = Some current \<and> running current = None"
  then show "stopRunningBrowser e during w = (Inr False, w)"
    by (simp add: stopRunningBrowser_def state_def)
next
  assume h: "getState w' = Some current' \<and> running current' = Some r
      \<and> stopClawdChrome e (seqno w') r = None"
  then have a: "getState w' = Some current'" and b: "running current' = Some r"
    and c: "stopClawdChrome e (seqno w') r = None" by simp_all
  note t = stopRunningBrowser_tracked [OF a b c, of during]
  show "fst (stopRunningBrowser e during w') = Inr True" by (rule t(1))
  show g: "getState (snd (stopRunningBrowser e during w')) = Some (current'\<lparr> running := None \<rparr>)"
    by (rule t(2))
  show "calls (snd (stopRunningBrowser e during w')) = calls w' @ [StopClawdChrome (pid r)]"
    by (rule t(3))
  show "stopRunningBrowser e again (snd (stopRunningBrowser e during w'))
          = (Inr False, snd (stopRunningBrowser e during w'))"
    using g by (simp add: stopRunningBrowser_def [of e again] state_def)
next
  assume "getState w0 = None"
  then show "stopRunningBrowser e during w0 = (Inl (Error ''Browser server not started''), w0)"
    by (simp add: stopRunningBrowser_def state_def)
next
  assume h: "getState w' = Some current' \<and> running current' = Some r
      \<and> stopClawdChrome e' (seqno w') r = Some err"
  then show "fst (stopRunningBrowser e' during w') = Inl err"
    by (simp add: stopRunningBrowser_def state_def)
  from h show "getState (snd (stopRunningBrowser e' [] w')) = Some current'"
    by (simp add: stopRunningBrowser_def state_def getState_issue)
qed

theorem stopRunningBrowser_idempotent_witness:
  "stopRunningBrowser (test_env False (\<lambda>n. []) (Inl ''off'')) [] (test_world (Some (test_state False None)) None)
     = (Inr False, test_world (Some (test_state False None)) None)
   \<and> fst (stopRunningBrowser (test_env True (\<lambda>n. test_tabs) (Inl ''off''))
            [ProcExit (test_chrome 123), Pw (Disconnected 7)]
            (test_world (Some (test_state False (Some (test_chrome 123)))) None)) = Inr True
   \<and> getState (snd (stopRunningBrowser (test_env True (\<lambda>n. test_tabs) (Inl ''off''))
            [ProcExit (test_chrome 123), Pw (Disconnected 7)]
            (test_world (Some (test_state False (Some (test_chrome 123)))) None)))
       = Some (test_state False None)
   \<and> stopRunningBrowser (test_env True (\<lambda>n. test_tabs) (Inl ''off'')) [] (test_world None None)
       = (Inl ''Error: Browser server not started'', test_world None None)
   \<and> fst (stopRunningBrowser
            ((test_env True (\<lambda>n. test_tabs) (Inl ''off''))\<lparr> stopClawdChrome := (\<lambda>n r. Some ''Error: kill EPERM'') \<rparr>)
            [] (test_world (Some (test_state False (Some (test_chrome 123)))) None))
       = Inl ''Error: kill EPERM''"
proof -
  let ?e = "test_env True (\<lambda>n. test_tabs) (Inl ''off'')"
  let ?e' = "?e\<lparr> stopClawdChrome := (\<lambda>n r. Some ''Error: kill EPERM'') \<rparr>"
  let ?w = "test_world (Some (test_state False None)) None"
  let ?w' = "test_world (Some (test_state False (Some (test_chrome 123)))) None"
  have h1: "getState ?w = Some (test_state False None) \<and> running (test_state False None) = None"
    and h2: "getState ?w' = Some (test_state False (Some (test_chrome 123)))
        \<and> running (test_state False (Some (test_chrome 123))) = Some (test_chrome 123)
        \<and> stopClawdChrome ?e (seqno ?w') (test_chrome 123) = None"
    and h3: "getState (test_world None None) = None"
    and h4: "getState ?w' = Some (test_state False (Some (test_chrome 123)))
        \<and> running (test_state False (Some (test_chrome 123))) = Some (test_chrome 123)
        \<and> stopClawdChrome ?e' (seqno ?w') (test_chrome 123) = Some ''Error: kill EPERM''"
    and upd: "(test_state False (Some (test_chrome 123)))\<lparr> running := None \<rparr> = test_state False None"
    by (simp_all add: test_world_def test_state_def test_env_def)
  note inst = stopRunningBrowser_idempotent [where w = ?w and current = "test_state False None"
      and w' = ?w' and current' = "test_state False (Some (test_chrome 123))" and r = "test_chrome 123"
      and e = ?e and w0 = "test_world None None" and e' = ?e' and err = "''Error: kill EPERM''"]
  have a: "stopRunningBrowser (test_env False (\<lambda>n. []) (Inl ''off'')) [] ?w = (Inr False, ?w)"
    using stopRunningBrowser_idempotent [where w = ?w and current = "test_state False None"
      and e = "test_env False (\<lambda>n. []) (Inl ''off'')" and during = "[]"] h1 by blast
  have b: "fst (stopRunningBrowser ?e [ProcExit (test_chrome 123), Pw (Disconnected 7)] ?w') = Inr True"
    and c: "getState (snd (stopRunningBrowser ?e [ProcExit (test_chrome 123), Pw (Disconnected 7)] ?w'))
        = Some ((test_state False (Some (test_chrome 123)))\<lparr> running := None \<rparr>)"
    using inst [where during = "[ProcExit (test_chrome 123), Pw (Disconnected 7)]"] h2 by blast+
  have d: "stopRunningBrowser ?e [] (test_world None None)
        = (Inl (Error ''Browser server not started''), test_world None None)"
    using inst [where during = "[]"] h3 by blast
  have f: "fst (stopRunningBrowser ?e' [] ?w') = Inl ''Error: kill EPERM''"
    using inst [where during = "[]"] h4 by blast
  have err: "Error ''Browser server not started'' = ''Error: Browser server not started''"
    by (simp add: Error_def)
  from a b c d f show ?thesis
    unfolding upd err by blast
qed

text \<open>
  C7 as stated fails when the control plane is not started: nothing is tracked, and
  \<open>stop()\<close> raises an error instead of returning \<open>stopped: false\<close>.
\<close>

theorem stop_throws_when_not_started:
  "fst (stopRunningBrowser (test_env False (\<lambda>n. []) (Inl ''off'')) [] (test_world None None))
     = Inl ''Error: Browser server not started''"
  by (simp add: stopRunningBrowser_def state_def test_world_def Error_def)

text \<open>
  C9. When the exit event of a launched process fires, the tracked handle is cleared
  only if the handle tracked at that moment has the pid of the process that exited: a
  world that tracks a handle with another pid (a newer process) is left exactly as it
  was, and a tracked handle with the same pid is cleared. Every process that
  \<open>ensureBrowserAvailable\<close> launches gets this listener.
\<close>

theorem exit_listener_pid_guard:
  "(getState w = Some live \<and> running live = Some newer \<and> pid newer \<noteq> pid launched
      \<longrightarrow> proc_exit launched w = w)
   \<and> (getState (proc_exit launched w) \<noteq> getState w
      \<longrightarrow> (\<exists>l r. getState w = Some l \<and> running l = Some r \<and> pid r = pid launched))
   \<and> (getState w' = Some live' \<and> running live' = Some launched \<and> launched \<in> set (exitListeners w')
      \<longrightarrow> getState (proc_exit launched w') = Some (live'\<lparr> running := None \<rparr>))
   \<and> (getState v = Some current \<and> isChromeReachable e (seqno v) (cdpPort current) 300 = Inr False
        \<and> \<not> attachOnly (resolved current)
        \<and> launchClawdChrome e (Suc (seqno v)) (resolved current) = Inr launched
      \<longrightarrow> launched \<in> set (exitListeners (snd (ensureBrowserAvailable e v)))
          \<and> getState (snd (ensureBrowserAvailable e v)) = Some (current\<lparr> running := Some launched \<rparr>))"
proof (intro conjI impI)
  assume "getState w = Some live \<and> running live = Some newer \<and> pid newer \<noteq> pid launched"
  then show "proc_exit launched w = w"
    by (simp add: proc_exit_def exit_listener_def)
next
  assume "getState (proc_exit launched w) \<noteq> getState w"
  then show "\<exists>l r. getState w = Some l \<and> running l = Some r \<and> pid r = pid launched"
    by (auto simp: proc_exit_def exit_listener_def split: option.splits if_splits)
next
  assume "getState w' = Some live' \<and> running live' = Some launched \<and> launched \<in> set (exitListeners w')"
  then show "getState (proc_exit launched w') = Some (live'\<lparr> running := None \<rparr>)"
    by (simp add: proc_exit_def exit_listener_def setRunning_def)
next
  assume h: "getState v = Some current \<and> isChromeReachable e (seqno v) (cdpPort current) 300 = Inr False
        \<and> \<not> attachOnly (resolved current)
        \<and> launchClawdChrome e (Suc (seqno v)) (resolved current) = Inr launched"
  then show "launched \<in> set (exitListeners (snd (ensureBrowserAvailable e v)))"
    by (simp add: ensureBrowserAvailable_def isReachable_def state_def Let_def issue_def
        setRunning_def seqno_def)
  from h show "getState (snd (ensureBrowserAvailable e v)) = Some (current\<lparr> running := Some launched \<rparr>)"
    by (simp add: ensureBrowserAvailable_def isReachable_def state_def Let_def issue_def
        setRunning_def seqno_def)
qed

lemmas lifecycle_eval =
  ensureBrowserAvailable_def stopRunningBrowser_def isReachable_def state_def
  setRunning_def issue_def seqno_def test_world_def test_state_def test_env_def
  test_config_def Let_def

lemma world_first_eval:
  "getState world_first = Some (test_state False (Some (test_chrome 101)))"
  "exitListeners world_first = [test_chrome 101]"
  "seqno world_first = 2"
  unfolding world_first_def by (simp_all add: lifecycle_eval test_chrome_def)

lemma world_second_eval:
  "getState world_second = Some (test_state False (Some (test_chrome 104)))"
  "exitListeners world_second = [test_chrome 101, test_chrome 104]"
  "calls world_second = [IsChromeReachable 18792 300, LaunchClawdChrome, StopClawdChrome 101,
                         IsChromeReachable 18792 300, LaunchClawdChrome]"
  unfolding world_second_def world_stopped_def world_first_def
  by (simp_all add: lifecycle_eval test_chrome_def)

theorem exit_listener_pid_guard_witness:
  "getState world_second = Some (test_state False (Some (test_chrome 104)))
   \<and> pid (test_chrome 104) \<noteq> pid (test_chrome 101)
   \<and> proc_exit (test_chrome 101) world_second = world_second
   \<and> test_chrome 104 \<in> set (exitListeners world_second)
   \<and> getState (proc_exit (test_chrome 104) world_second) = Some (test_state False None)
   \<and> test_chrome 101 \<in> set (exitListeners world_first)
   \<and> getState world_first = Some (test_state False (Some (test_chrome 101)))"
proof -
  have a: "running (test_state False (Some (test_chrome 104))) = Some (test_chrome 104)"
    and b: "pid (test_chrome 104) \<noteq> pid (test_chrome 101)"
    and c: "(test_state False (Some (test_chrome 104)))\<lparr> running := None \<rparr> = test_state False None"
    and d: "getState (test_world (Some (test_state False None)) None) = Some (test_state False None)"
    and e: "isChromeReachable (test_env False (\<lambda>n. []) (Inl ''off''))
              (seqno (test_world (Some (test_state False None)) None))
              (cdpPort (test_state False None)) 300 = Inr False"
    and f: "\<not> attachOnly (resolved (test_state False None))"
    and g: "launchClawdChrome (test_env False (\<lambda>n. []) (Inl ''off''))
              (Suc (seqno (test_world (Some (test_state False None)) None)))
              (resolved (test_state False None)) = Inr (test_chrome 101)"
    and h: "(test_state False None)\<lparr> running := Some (test_chrome 101) \<rparr>
              = test_state False (Some (test_chrome 101))"
    by (simp_all add: test_state_def test_chrome_def test_world_def test_env_def test_config_def seqno_def)
  show ?thesis
    using exit_listener_pid_guard [where w = world_second
        and live = "test_state False (Some (test_chrome 104))" and newer = "test_chrome 104"
        and launched = "test_chrome 101" and v = "test_world (Some (test_state False None)) None"
        and current = "test_state False None" and e = "test_env False (\<lambda>n. []) (Inl ''off'')"
        and w' = world_first and live' = "test_state False (Some (test_chrome 101))"]
      exit_listener_pid_guard [where launched = "test_chrome 104" and w' = world_second
        and live' = "test_state False (Some (test_chrome 104))"]
      world_second_eval(1,2) world_first_eval(1,2) a b c d e f g h
    by (simp add: world_first_def [symmetric])
qed

section \<open>Bounded histories\<close>













section \<open>Target resolution\<close>

lemma startsWith_self: "startsWith s s"
  by (induction s) auto

lemma find_SomeD: "find P xs = Some x \<Longrightarrow> P x \<and> x \<in> set xs"
  by (induction xs) (auto split: if_splits)

text \<open>The only tab with the prefix is also the first tab with its own id.\<close>

lemma find_only_prefix:
  "filter (\<lambda>t. startsWith (targetId t) i) tabs = [t] \<Longrightarrow>
   find (\<lambda>x. targetId x = targetId t) tabs = Some t"
proof (induction tabs)
  case Nil
  then show ?case by simp
next
  case (Cons a tabs)
  show ?case
  proof (cases "startsWith (targetId a) i")
    case True
    with Cons.prems have "a = t" by simp
    then show ?thesis by simp
  next
    case False
    with Cons.prems have only: "filter (\<lambda>t. startsWith (targetId t) i) tabs = [t]" by simp
    then have "t \<in> set (filter (\<lambda>t. startsWith (targetId t) i) tabs)" by simp
    then have "startsWith (targetId t) i" by simp
    with False have "targetId a \<noteq> targetId t" by auto
    with Cons.IH [OF only] show ?thesis by simp
  qed
qed

lemma no_prefix_no_exact:
  "filter (\<lambda>t. startsWith (targetId t) i) tabs = [] \<Longrightarrow> find (\<lambda>t. targetId t = i) tabs = None"
  by (auto simp: find_None_iff filter_empty_conv startsWith_self)

lemma resolve_exact:
  "i \<noteq> [] \<Longrightarrow> find (\<lambda>t. targetId t = i) tabs = Some t \<Longrightarrow>
   resolveTargetIdFromTabs i tabs = Resolved (targetId t)"
  by (simp add: resolveTargetIdFromTabs_def)

lemma resolve_unique_prefix:
  "i \<noteq> [] \<Longrightarrow> find (\<lambda>t. targetId t = i) tabs = None \<Longrightarrow>
   filter (\<lambda>t. startsWith (targetId t) i) tabs = [t] \<Longrightarrow>
   resolveTargetIdFromTabs i tabs = Resolved (targetId t)"
  by (simp add: resolveTargetIdFromTabs_def)

lemma resolve_ambiguous:
  "i \<noteq> [] \<Longrightarrow> find (\<lambda>t. targetId t = i) tabs = None \<Longrightarrow>
   2 \<le> length (filter (\<lambda>t. startsWith (targetId t) i) tabs) \<Longrightarrow>
   resolveTargetIdFromTabs i tabs = Unresolved ambiguous"
  by (auto simp: resolveTargetIdFromTabs_def split: list.splits)

lemma resolve_not_found:
  "i \<noteq> [] \<Longrightarrow> filter (\<lambda>t. startsWith (targetId t) i) tabs = [] \<Longrightarrow>
   resolveTargetIdFromTabs i tabs = Unresolved not_found"
  by (simp add: resolveTargetIdFromTabs_def no_prefix_no_exact)

lemma choose_resolved:
  "i \<noteq> [] \<Longrightarrow> resolveTargetIdFromTabs i tabs = Resolved (targetId t) \<Longrightarrow>
   find (\<lambda>x. targetId x = targetId t) tabs = Some t \<Longrightarrow>
   returnChosen (chooseTab (Some i) tabs) = guarded t"
  by (simp add: returnChosen_def chooseTab_def guarded_def)

lemma choose_unresolved:
  "i \<noteq> [] \<Longrightarrow> resolveTargetIdFromTabs i tabs = Unresolved r \<Longrightarrow>
   returnChosen (chooseTab (Some i) tabs)
     = Inl (Error (if r = ambiguous then ''ambiguous target id prefix'' else ''tab not found''))"
  by (simp add: returnChosen_def chooseTab_def)

lemma choose_absent:
  "returnChosen (chooseTab None tabs)
     = (case tabs of [] \<Rightarrow> Inl (Error ''tab not found'') | t # rest \<Rightarrow> guarded t)"
  "chooseTab (Some []) tabs = chooseTab None tabs"
  by (simp_all add: returnChosen_def chooseTab_def guarded_def split: list.splits)

lemma focusTab_resolved:
  assumes "getState w = Some current" and "listTabs e w = (Inr tabs, w1)"
  shows "fst (focusTab e i w)
           = (case resolveTargetIdFromTabs i tabs of
                Unresolved r \<Rightarrow>
                  Inl (Error (if r = ambiguous then ''ambiguous target id prefix'' else ''tab not found''))
              | Resolved rid \<Rightarrow> fetchOk (fetch_ok e (seqno w1) (activate_url (cdpPort current) rid)))"
  using assms by (simp add: focusTab_def state_def split: resolution.splits)

text \<open>
  A run of \<open>ensureTabAvailable\<close> that reaches the resolution: the browser is available,
  the first listing succeeds, a blank tab is opened when that listing is empty, and the
  second listing gives \<open>tabs\<close>. The outcome is decided by the identifier and \<open>tabs\<close>.
\<close>

lemma ensureTabAvailable_run:
  assumes "ensureBrowserAvailable e w = (Inr (), w1)" and "listTabs e w1 = (Inr tabs1, w2)"
    and "if tabs1 = [] then (\<exists>opened. openTab e ''about:blank'' w2 = (Inr opened, w3)) else w3 = w2"
    and "listTabs e w3 = (Inr tabs, w4)"
  shows "ensureTabAvailable e tid w = (returnChosen (chooseTab tid tabs), w4)"
proof (cases "tabs1 = []")
  case True
  with assms(3) obtain opened where "openTab e ''about:blank'' w2 = (Inr opened, w3)"
    by auto
  with True assms(1,2,4) show ?thesis
    by (simp add: ensureTabAvailable_def)
next
  case False
  with assms(3) have "w2 = w3" by simp
  with False assms(1,2,4) show ?thesis
    by (simp add: ensureTabAvailable_def)
qed

lemma choose_cases:
  "i \<noteq> [] \<Longrightarrow> find (\<lambda>x. targetId x = i) tabs = Some t \<Longrightarrow>
     returnChosen (chooseTab (Some i) tabs) = guarded t"
  "i \<noteq> [] \<Longrightarrow> find (\<lambda>x. targetId x = i) tabs = None \<Longrightarrow>
     filter (\<lambda>x. startsWith (targetId x) i) tabs = [u] \<Longrightarrow>
     returnChosen (chooseTab (Some i) tabs) = guarded u"
  "i \<noteq> [] \<Longrightarrow> find (\<lambda>x. targetId x = i) tabs = None \<Longrightarrow>
     2 \<le> length (filter (\<lambda>x. startsWith (targetId x) i) tabs) \<Longrightarrow>
     returnChosen (chooseTab (Some i) tabs) = Inl (Error ''ambiguous target id prefix'')"
  "i \<noteq> [] \<Longrightarrow> filter (\<lambda>x. startsWith (targetId x) i) tabs = [] \<Longrightarrow>
     returnChosen (chooseTab (Some i) tabs) = Inl (Error ''tab not found'')"
proof -
  {
    assume a: "i \<noteq> []" "find (\<lambda>x. targetId x = i) tabs = Some t"
    have t_id: "targetId t = i"
      using find_SomeD [OF a(2)] by simp
    from a(2) have "find (\<lambda>x. targetId x = targetId t) tabs = Some t"
      unfolding t_id .
    from choose_resolved [OF a(1) resolve_exact [OF a] this]
    show "returnChosen (chooseTab (Some i) tabs) = guarded t" .
  }
  {
    assume a: "i \<noteq> []" "find (\<lambda>x. targetId x = i) tabs = None"
      "filter (\<lambda>x. startsWith (targetId x) i) tabs = [u]"
    from choose_resolved [OF a(1) resolve_unique_prefix [OF a] find_only_prefix [OF a(3)]]
    show "returnChosen (chooseTab (Some i) tabs) = guarded u" .
  }
  {
    assume a: "i \<noteq> []" "find (\<lambda>x. targetId x = i) tabs = None"
      "2 \<le> length (filter (\<lambda>x. startsWith (targetId x) i) tabs)"
    from choose_unresolved [OF a(1) resolve_ambiguous [OF a]]
    show "returnChosen (chooseTab (Some i) tabs) = Inl (Error ''ambiguous target id prefix'')"
      by simp
  }
  {
    assume a: "i \<noteq> []" "filter (\<lambda>x. startsWith (targetId x) i) tabs = []"
    from choose_unresolved [OF a(1) resolve_not_found [OF a]]
    show "returnChosen (chooseTab (Some i) tabs) = Inl (Error ''tab not found'')"
      by simp
  }
qed

lemma focus_cases:
  assumes "getState w = Some current" and "listTabs e w = (Inr tabs, w1)"
  shows
  "i \<noteq> [] \<Longrightarrow> find (\<lambda>x. targetId x = i) tabs = Some t \<Longrightarrow>
     focusTab e i w = (fetchOk (fetch_ok e (seqno w1) (activate_url (cdpPort current) (targetId t))),
                       issue e (Fetch GET (activate_url (cdpPort current) (targetId t))) w1)"
  "i \<noteq> [] \<Longrightarrow> find (\<lambda>x. targetId x = i) tabs = None \<Longrightarrow>
     filter (\<lambda>x. startsWith (targetId x) i) tabs = [u] \<Longrightarrow>
     focusTab e i w = (fetchOk (fetch_ok e (seqno w1) (activate_url (cdpPort current) (targetId u))),
                       issue e (Fetch GET (activate_url (cdpPort current) (targetId u))) w1)"
  "i \<noteq> [] \<Longrightarrow> find (\<lambda>x. targetId x = i) tabs = None \<Longrightarrow>
     2 \<le> length (filter (\<lambda>x. startsWith (targetId x) i) tabs) \<Longrightarrow>
     focusTab e i w = (Inl (Error ''ambiguous target id prefix''), w1)"
  "i \<noteq> [] \<Longrightarrow> filter (\<lambda>x. startsWith (targetId x) i) tabs = [] \<Longrightarrow>
     focusTab e i w = (Inl (Error ''tab not found''), w1)"
  using assms
  by (simp_all add: focusTab_def state_def resolve_exact resolve_unique_prefix resolve_ambiguous
      resolve_not_found)

text \<open>
  C1, as amended. The outcome of \<open>ensureTabAvailable\<close> is a function of the identifier
  and of the listing it resolves against (the second listing of the call, after the
  browser was made available and a blank tab opened if the first listing was empty).
  For every non-empty identifier and every such listing: if a tab has exactly that id,
  that tab (the first with that id) is selected, whatever other tabs are present;
  otherwise, if exactly one tab id starts with the identifier, that tab is selected; if
  two or more do, the call fails with the ambiguity error; if none does, with the
  not-found error. An absent or empty identifier selects the first tab in listing
  order, and fails with the not-found error on an empty listing. A selected tab is
  returned only when it has a channel address (\<open>wsUrl\<close>); when it has none the call
  fails with the not-found error (\<open>guarded\<close>). \<open>focusTab\<close>, on the listing it reads,
  resolves in the same way: it activates the id of the selected tab, and fails with the
  same two errors without activating anything.
\<close>

theorem target_resolution:
  "(ensureBrowserAvailable e w = (Inr (), w1) \<and> listTabs e w1 = (Inr tabs1, w2)
      \<and> (if tabs1 = [] then (\<exists>opened. openTab e ''about:blank'' w2 = (Inr opened, w3)) else w3 = w2)
      \<and> listTabs e w3 = (Inr tabs, w4)
    \<longrightarrow> snd (ensureTabAvailable e tid w) = w4
      \<and> (\<forall>i t. i \<noteq> [] \<and> find (\<lambda>x. targetId x = i) tabs = Some t
            \<longrightarrow> fst (ensureTabAvailable e (Some i) w) = guarded t)
      \<and> (\<forall>i u. i \<noteq> [] \<and> find (\<lambda>x. targetId x = i) tabs = None
              \<and> filter (\<lambda>x. startsWith (targetId x) i) tabs = [u]
            \<longrightarrow> fst (ensureTabAvailable e (Some i) w) = guarded u)
      \<and> (\<forall>i. i \<noteq> [] \<and> find (\<lambda>x. targetId x = i) tabs = None
              \<and> 2 \<le> length (filter (\<lambda>x. startsWith (targetId x) i) tabs)
            \<longrightarrow> fst (ensureTabAvailable e (Some i) w) = Inl (Error ''ambiguous target id prefix''))
      \<and> (\<forall>i. i \<noteq> [] \<and> filter (\<lambda>x. startsWith (targetId x) i) tabs = []
            \<longrightarrow> fst (ensureTabAvailable e (Some i) w) = Inl (Error ''tab not found''))
      \<and> fst (ensureTabAvailable e None w)
          = (case tabs of [] \<Rightarrow> Inl (Error ''tab not found'') | first # rest \<Rightarrow> guarded first)
      \<and> fst (ensureTabAvailable e (Some []) w) = fst (ensureTabAvailable e None w))
 \<and> (getState v = Some current \<and> listTabs e' v = (Inr ftabs, v1)
    \<longrightarrow> (\<forall>i t. i \<noteq> [] \<and> find (\<lambda>x. targetId x = i) ftabs = Some t
            \<longrightarrow> focusTab e' i v
                 = (fetchOk (fetch_ok e' (seqno v1) (activate_url (cdpPort current) (targetId t))),
                    issue e' (Fetch GET (activate_url (cdpPort current) (targetId t))) v1))
      \<and> (\<forall>i u. i \<noteq> [] \<and> find (\<lambda>x. targetId x = i) ftabs = None
              \<and> filter (\<lambda>x. startsWith (targetId x) i) ftabs = [u]
            \<longrightarrow> focusTab e' i v
                 = (fetchOk (fetch_ok e' (seqno v1) (activate_url (cdpPort current) (targetId u))),
                    issue e' (Fetch GET (activate_url (cdpPort current) (targetId u))) v1))
      \<and> (\<forall>i. i \<noteq> [] \<and> find (\<lambda>x. targetId x = i) ftabs = None
              \<and> 2 \<le> length (filter (\<lambda>x. startsWith (targetId x) i) ftabs)
            \<longrightarrow> focusTab e' i v = (Inl (Error ''ambiguous target id prefix''), v1))
      \<and> (\<forall>i. i \<noteq> [] \<and> filter (\<lambda>x. startsWith (targetId x) i) ftabs = []
            \<longrightarrow> focusTab e' i v = (Inl (Error ''tab not found''), v1)))"
proof (intro conjI impI)
  assume run: "ensureBrowserAvailable e w = (Inr (), w1) \<and> listTabs e w1 = (Inr tabs1, w2)
      \<and> (if tabs1 = [] then (\<exists>opened. openTab e ''about:blank'' w2 = (Inr opened, w3)) else w3 = w2)
      \<and> listTabs e w3 = (Inr tabs, w4)"
  then have a: "ensureBrowserAvailable e w = (Inr (), w1)" and b: "listTabs e w1 = (Inr tabs1, w2)"
    and c: "if tabs1 = [] then (\<exists>opened. openTab e ''about:blank'' w2 = (Inr opened, w3)) else w3 = w2"
    and d: "listTabs e w3 = (Inr tabs, w4)"
    by blast+
  have r: "ensureTabAvailable e x w = (returnChosen (chooseTab x tabs), w4)" for x
    by (rule ensureTabAvailable_run [OF a b c d])
  show "snd (ensureTabAvailable e tid w) = w4"
    unfolding r by simp
  show "\<forall>i t. i \<noteq> [] \<and> find (\<lambda>x. targetId x = i) tabs = Some t
            \<longrightarrow> fst (ensureTabAvailable e (Some i) w) = guarded t"
    unfolding r by (simp add: choose_cases(1))
  show "\<forall>i u. i \<noteq> [] \<and> find (\<lambda>x. targetId x = i) tabs = None
              \<and> filter (\<lambda>x. startsWith (targetId x) i) tabs = [u]
            \<longrightarrow> fst (ensureTabAvailable e (Some i) w) = guarded u"
    unfolding r by (simp add: choose_cases(2))
  show "\<forall>i. i \<noteq> [] \<and> find (\<lambda>x. targetId x = i) tabs = None
              \<and> 2 \<le> length (filter (\<lambda>x. startsWith (targetId x) i) tabs)
            \<longrightarrow> fst (ensureTabAvailable e (Some i) w) = Inl (Error ''ambiguous target id prefix'')"
    unfolding r by (simp add: choose_cases(3))
  show "\<forall>i. i \<noteq> [] \<and> filter (\<lambda>x. startsWith (targetId x) i) tabs = []
            \<longrightarrow> fst (ensureTabAvailable e (Some i) w) = Inl (Error ''tab not found'')"
    unfolding r by (simp add: choose_cases(4))
  show "fst (ensureTabAvailable e None w)
          = (case tabs of [] \<Rightarrow> Inl (Error ''tab not found'') | first # rest \<Rightarrow> guarded first)"
    unfolding r by (simp add: choose_absent(1))
  show "fst (ensureTabAvailable e (Some []) w) = fst (ensureTabAvailable e None w)"
    unfolding r by (simp add: choose_absent(2))
next
  assume "getState v = Some current \<and> listTabs e' v = (Inr ftabs, v1)"
  then have a: "getState v = Some current" and b: "listTabs e' v = (Inr ftabs, v1)"
    by blast+
  note f = focus_cases [OF a b]
  show "\<forall>i t. i \<noteq> [] \<and> find (\<lambda>x. targetId x = i) ftabs = Some t
            \<longrightarrow> focusTab e' i v
                 = (fetchOk (fetch_ok e' (seqno v1) (activate_url (cdpPort current) (targetId t))),
                    issue e' (Fetch GET (activate_url (cdpPort current) (targetId t))) v1)"
    using f(1) by blast
  show "\<forall>i u. i \<noteq> [] \<and> find (\<lambda>x. targetId x = i) ftabs = None
              \<and> filter (\<lambda>x. startsWith (targetId x) i) ftabs = [u]
            \<longrightarrow> focusTab e' i v
                 = (fetchOk (fetch_ok e' (seqno v1) (activate_url (cdpPort current) (targetId u))),
                    issue e' (Fetch GET (activate_url (cdpPort current) (targetId u))) v1)"
    using f(2) by blast
  show "\<forall>i. i \<noteq> [] \<and> find (\<lambda>x. targetId x = i) ftabs = None
              \<and> 2 \<le> length (filter (\<lambda>x. startsWith (targetId x) i) ftabs)
            \<longrightarrow> focusTab e' i v = (Inl (Error ''ambiguous target id prefix''), v1)"
    using f(3) by blast
  show "\<forall>i. i \<noteq> [] \<and> filter (\<lambda>x. startsWith (targetId x) i) ftabs = []
            \<longrightarrow> focusTab e' i v = (Inl (Error ''tab not found''), v1)"
    using f(4) by blast
qed

lemma test_listing_eval:
  "test_listing =
     [\<lparr> targetId = ''abcd1234'', title = ''Tab'', url = ''https://example.com'',
         wsUrl = Some ''ws://127.0.0.1/devtools/page/abcd1234'', tab_type = Some ''page'' \<rparr>,
      \<lparr> targetId = ''abce9999'', title = ''Other'', url = ''https://other'',
         wsUrl = Some ''ws://127.0.0.1/devtools/page/abce9999'', tab_type = Some ''page'' \<rparr>]"
  by (simp add: test_listing_def test_tabs_def toTab_def)

theorem target_resolution_witness:
  "fst (ensureTabAvailable (test_env True (\<lambda>n. test_tabs) (Inl ''off'')) (Some ''abcd1234'')
          (test_world (Some (test_state False None)) None)) = Inr (test_listing ! 0)
   \<and> fst (ensureTabAvailable (test_env True (\<lambda>n. test_tabs) (Inl ''off'')) (Some ''abcd'')
          (test_world (Some (test_state False None)) None)) = Inr (test_listing ! 0)
   \<and> fst (ensureTabAvailable (test_env True (\<lambda>n. test_tabs) (Inl ''off'')) (Some ''abc'')
          (test_world (Some (test_state False None)) None)) = Inl ''Error: ambiguous target id prefix''
   \<and> fst (ensureTabAvailable (test_env True (\<lambda>n. test_tabs) (Inl ''off'')) (Some ''zzz'')
          (test_world (Some (test_state False None)) None)) = Inl ''Error: tab not found''
   \<and> fst (ensureTabAvailable (test_env True (\<lambda>n. test_tabs) (Inl ''off'')) None
          (test_world (Some (test_state False None)) None)) = Inr (test_listing ! 0)
   \<and> calls (snd (ensureTabAvailable (test_env True (\<lambda>n. test_tabs) (Inl ''off'')) (Some ''abc'')
          (test_world (Some (test_state False None)) None)))
       = [IsChromeReachable 18792 300, Fetch GET ''http://127.0.0.1:18792/json/list'',
          Fetch GET ''http://127.0.0.1:18792/json/list'']
   \<and> fst (focusTab (test_env True (\<lambda>n. test_tabs) (Inl ''off'')) ''abc''
            (test_world (Some (test_state False None)) None)) = Inl ''Error: ambiguous target id prefix''
   \<and> fst (focusTab (test_env True (\<lambda>n. test_tabs) (Inl ''off'')) ''zzz''
            (test_world (Some (test_state False None)) None)) = Inl ''Error: tab not found''
   \<and> focusTab (test_env True (\<lambda>n. test_tabs) (Inl ''off'')) ''abcd''
            (test_world (Some (test_state False None)) None)
       = (Inr (), (test_world (Some (test_state False None)) None)\<lparr> now := 2,
            calls := [Fetch GET ''http://127.0.0.1:18792/json/list'',
                      Fetch GET ''http://127.0.0.1:18792/json/activate/abcd1234''] \<rparr>)"
proof -
  let ?e = "test_env True (\<lambda>n. test_tabs) (Inl ''off'')"
  let ?w = "test_world (Some (test_state False None)) None"
  let ?w1 = "snd (ensureBrowserAvailable ?e ?w)"
  let ?w2 = "snd (listTabs ?e ?w1)"
  let ?w4 = "snd (listTabs ?e ?w2)"
  let ?f1 = "snd (listTabs ?e ?w)"
  note ev = ensureBrowserAvailable_def isReachable_def listTabs_def state_def fetchJson_def
    issue_def seqno_def Let_def test_world_def test_state_def test_env_def test_config_def
    list_url_def dec.simps digit_def
  have n1: "''abcd1234'' \<noteq> []" and n2: "''abcd'' \<noteq> []" and n3: "''abc'' \<noteq> []" and n4: "''zzz'' \<noteq> []"
    by simp_all
  have h2: "find (\<lambda>x. targetId x = ''abcd1234'') test_listing = Some (test_listing ! 0)"
    and h4: "find (\<lambda>x. targetId x = ''abcd'') test_listing = None"
    and h5: "filter (\<lambda>x. startsWith (targetId x) ''abcd'') test_listing = [test_listing ! 0]"
    and h7: "find (\<lambda>x. targetId x = ''abc'') test_listing = None"
    and h8: "2 \<le> length (filter (\<lambda>x. startsWith (targetId x) ''abc'') test_listing)"
    and h10: "filter (\<lambda>x. startsWith (targetId x) ''zzz'') test_listing = []"
    by (simp_all add: test_listing_eval)
  have ne: "test_listing \<noteq> []"
    by (simp add: test_listing_eval)
  have a: "ensureBrowserAvailable ?e ?w = (Inr (), ?w1)"
    by (simp add: ev)
  have b: "listTabs ?e ?w1 = (Inr test_listing, ?w2)"
    by (simp add: ev test_listing_def test_tabs_def toTab_def)
  have c: "if test_listing = [] then (\<exists>opened. openTab ?e ''about:blank'' ?w2 = (Inr opened, ?w2))
           else ?w2 = ?w2"
    using ne by simp
  have d: "listTabs ?e ?w2 = (Inr test_listing, ?w4)"
    by (simp add: ev test_listing_def test_tabs_def toTab_def)
  have w4: "calls ?w4 = [IsChromeReachable 18792 300, Fetch GET ''http://127.0.0.1:18792/json/list'',
          Fetch GET ''http://127.0.0.1:18792/json/list'']"
    by (simp add: ev)
  have fa: "getState ?w = Some (test_state False None)"
    by (simp add: test_world_def)
  have fb: "listTabs ?e ?w = (Inr test_listing, ?f1)"
    by (simp add: ev test_listing_def test_tabs_def toTab_def)
  have g: "guarded (test_listing ! 0) = Inr (test_listing ! 0)"
    by (simp add: guarded_def test_listing_eval)
  have ok: "fetchOk (fetch_ok ?e n x) = Inr ()" for n x
    by (simp add: fetchOk_def test_env_def)
  have act: "issue ?e (Fetch GET (activate_url (cdpPort (test_state False None)) (targetId (test_listing ! 0)))) ?f1
       = ?w\<lparr> now := 2,
            calls := [Fetch GET ''http://127.0.0.1:18792/json/list'',
                      Fetch GET ''http://127.0.0.1:18792/json/activate/abcd1234''] \<rparr>"
    by (simp add: ev activate_url_def test_listing_eval)
  note inst = target_resolution [where e = ?e and w = ?w and ?w1.0 = ?w1 and ?w2.0 = ?w2
      and ?w3.0 = ?w2 and ?w4.0 = ?w4 and ?tabs1.0 = test_listing and tabs = test_listing
      and tid = "Some ''abc''"
      and e' = ?e and v = ?w and ?v1.0 = ?f1 and ftabs = test_listing
      and current = "test_state False None"]
  note g1 = inst [THEN conjunct1, THEN mp, OF conjI [OF a conjI [OF b conjI [OF c d]]]]
  note g2 = inst [THEN conjunct2, THEN mp, OF conjI [OF fa fb]]
  have e6: "snd (ensureTabAvailable ?e (Some ''abc'') ?w) = ?w4"
    by (rule g1 [THEN conjunct1])
  have e1: "fst (ensureTabAvailable ?e (Some ''abcd1234'') ?w) = guarded (test_listing ! 0)"
    by (rule g1 [THEN conjunct2, THEN conjunct1, THEN spec, THEN spec, THEN mp,
          OF conjI [OF n1 h2]])
  have e2: "fst (ensureTabAvailable ?e (Some ''abcd'') ?w) = guarded (test_listing ! 0)"
    by (rule g1 [THEN conjunct2, THEN conjunct2, THEN conjunct1, THEN spec, THEN spec, THEN mp,
          OF conjI [OF n2 conjI [OF h4 h5]]])
  have e3: "fst (ensureTabAvailable ?e (Some ''abc'') ?w) = Inl (Error ''ambiguous target id prefix'')"
    by (rule g1 [THEN conjunct2, THEN conjunct2, THEN conjunct2, THEN conjunct1, THEN spec, THEN mp,
          OF conjI [OF n3 conjI [OF h7 h8]]])
  have e4: "fst (ensureTabAvailable ?e (Some ''zzz'') ?w) = Inl (Error ''tab not found'')"
    by (rule g1 [THEN conjunct2, THEN conjunct2, THEN conjunct2, THEN conjunct2, THEN conjunct1,
          THEN spec, THEN mp, OF conjI [OF n4 h10]])
  have e5: "fst (ensureTabAvailable ?e None ?w)
      = (case test_listing of [] \<Rightarrow> Inl (Error ''tab not found'') | first # rest \<Rightarrow> guarded first)"
    by (rule g1 [THEN conjunct2, THEN conjunct2, THEN conjunct2, THEN conjunct2, THEN conjunct2,
          THEN conjunct1])
  have f2: "focusTab ?e ''abcd'' ?w
      = (fetchOk (fetch_ok ?e (seqno ?f1)
           (activate_url (cdpPort (test_state False None)) (targetId (test_listing ! 0)))),
         issue ?e (Fetch GET (activate_url (cdpPort (test_state False None)) (targetId (test_listing ! 0)))) ?f1)"
    by (rule g2 [THEN conjunct2, THEN conjunct1, THEN spec, THEN spec, THEN mp,
          OF conjI [OF n2 conjI [OF h4 h5]]])
  have f3: "focusTab ?e ''abc'' ?w = (Inl (Error ''ambiguous target id prefix''), ?f1)"
    by (rule g2 [THEN conjunct2, THEN conjunct2, THEN conjunct1, THEN spec, THEN mp,
          OF conjI [OF n3 conjI [OF h7 h8]]])
  have f4: "focusTab ?e ''zzz'' ?w = (Inl (Error ''tab not found''), ?f1)"
    by (rule g2 [THEN conjunct2, THEN conjunct2, THEN conjunct2, THEN spec, THEN mp,
          OF conjI [OF n4 h10]])
  have e5': "fst (ensureTabAvailable ?e None ?w) = guarded (test_listing ! 0)"
    unfolding e5 by (simp add: test_listing_eval)
  show ?thesis
    unfolding e1 e2 e3 e4 e5' e6 w4 f2 f3 f4 act ok g
    by (simp add: Error_def)
qed

text \<open>
  C1 as stated fails in \<open>ensureTabAvailable\<close>: the listing has a tab with exactly
  the requested id, but that tab has no channel address (the browser omits
  \<open>webSocketDebuggerUrl\<close>), and the result is the not-found error, not the tab.
\<close>

theorem exact_match_without_wsUrl_not_returned:
  "fst (ensureTabAvailable
          (test_env True
             (\<lambda>n. [\<lparr> cdp_id = Some ''abcd1234'', cdp_title = Some ''Tab'',
                      cdp_url = Some ''https://example.com'', webSocketDebuggerUrl = None,
                      cdp_type = Some ''page'' \<rparr>])
             (Inl ''off''))
          (Some ''abcd1234'') (test_world (Some (test_state False None)) None))
     = Inl ''Error: tab not found''"
  by (simp add: ensureTabAvailable_def ensureBrowserAvailable_def isReachable_def listTabs_def
      state_def fetchJson_def chooseTab_def returnChosen_def resolveTargetIdFromTabs_def
      toTab_def issue_def seqno_def Let_def test_world_def test_state_def test_env_def Error_def)

section \<open>Opening a tab\<close>

lemma getState_listTabs: "getState (snd (listTabs e w)) = getState w"
  by (simp add: listTabs_def Let_def getState_issue split: sum.splits)

lemma getState_sleep: "getState (sleep e ms w) = getState w"
  by (simp add: sleep_def)

lemma calls_listTabs:
  "getState w = Some current \<Longrightarrow> calls (snd (listTabs e w)) = calls w @ [Fetch GET (list_url (cdpPort current))]"
  by (simp add: listTabs_def state_def Let_def calls_issue split: sum.splits)

lemma calls_sleep: "calls (sleep e ms w) = calls w @ [SetTimeout ms]"
  by (simp add: sleep_def)

lemma getState_poll_world: "getState (poll_world e j w) = getState w"
  by (induction j arbitrary: w) (simp_all add: getState_sleep getState_listTabs)

lemma now_poll_world: "now w + 100 * j \<le> now (poll_world e j w)"
proof (induction j arbitrary: w)
  case 0
  then show ?case by simp
next
  case (Suc j)
  have "now w + 100 \<le> now (sleep e 100 (snd (listTabs e w)))"
    using now_listTabs [of w e] now_sleep [of "snd (listTabs e w)" 100 e] by simp
  with Suc [of "sleep e 100 (snd (listTabs e w))"] show ?case by simp
qed

lemma poll_world_Suc:
  "poll_world e (Suc j) w = sleep e 100 (snd (listTabs e (poll_world e j w)))"
  by (induction j arbitrary: w) simp_all

lemma calls_poll_world:
  "getState w = Some current \<Longrightarrow> calls (poll_world e j w) = calls w @ poll_calls j (cdpPort current)"
proof (induction j arbitrary: w)
  case 0
  then show ?case by (simp add: poll_calls_def)
next
  case (Suc j)
  let ?w2 = "sleep e 100 (snd (listTabs e w))"
  have st: "getState ?w2 = Some current"
    using Suc.prems by (simp add: getState_sleep getState_listTabs)
  have c2: "calls ?w2 = calls w @ [Fetch GET (list_url (cdpPort current)), SetTimeout 100]"
    by (simp add: calls_sleep calls_listTabs [OF Suc.prems])
  show ?case
    using Suc.IH [OF st] by (simp add: c2 poll_calls_def)
qed

text \<open>
  The polling loop, round by round: \<open>k\<close> rounds start before the deadline and do not
  list the id; then either the deadline has passed and the stub is returned, or the
  round starts before the deadline and returns the tab with the id from its listing.
\<close>

lemma poll_exact:
  "\<exists>k. 100 * k \<le> (d - now w) + 99
     \<and> (\<forall>j<k. now (poll_world e j w) < d
             \<and> find (\<lambda>t. targetId t = c) (listed e (poll_world e j w)) = None)
     \<and> ((d \<le> now (poll_world e k w)
          \<and> poll_created e c u d w = (stub_tab c u, poll_world e k w))
        \<or> (now (poll_world e k w) < d
          \<and> (\<exists>found. find (\<lambda>t. targetId t = c) (listed e (poll_world e k w)) = Some found
                \<and> poll_created e c u d w = (found, snd (listTabs e (poll_world e k w))))))"
proof (induction e c u d w rule: poll_created.induct)
  case (1 e c u d w)
  show ?case
  proof (cases "now w < d")
    case False
    then have "poll_created e c u d w = (stub_tab c u, w)"
      by (simp add: poll_created.simps)
    with False show ?thesis
      by (intro exI [of _ 0]) simp
  next
    case True
    show ?thesis
    proof (cases "find (\<lambda>t. targetId t = c) (listed e w)")
      case (Some found)
      then have "poll_created e c u d w = (found, snd (listTabs e w))"
        using True by (simp add: poll_created.simps [of e c u d w] listed_def Let_def)
      with True Some show ?thesis
        by (intro exI [of _ 0]) simp
    next
      case None
      let ?w2 = "sleep e 100 (snd (listTabs e w))"
      have none': "find (\<lambda>t. targetId t = c)
                     (case fst (listTabs e w) of Inl err \<Rightarrow> [] | Inr ts \<Rightarrow> ts) = None"
        using None by (simp add: listed_def)
      have r: "poll_created e c u d w = poll_created e c u d ?w2"
        using True none' by (simp add: poll_created.simps [of e c u d w] Let_def)
      have t: "now w + 100 \<le> now ?w2"
        using now_listTabs [of w e] now_sleep [of "snd (listTabs e w)" 100 e] by simp
      from "1.IH" [OF True refl refl none']
      obtain k where k: "100 * k \<le> (d - now ?w2) + 99"
        and miss: "\<forall>j<k. now (poll_world e j ?w2) < d
             \<and> find (\<lambda>t. targetId t = c) (listed e (poll_world e j ?w2)) = None"
        and alt: "(d \<le> now (poll_world e k ?w2)
              \<and> poll_created e c u d ?w2 = (stub_tab c u, poll_world e k ?w2))
            \<or> (now (poll_world e k ?w2) < d
              \<and> (\<exists>found. find (\<lambda>t. targetId t = c) (listed e (poll_world e k ?w2)) = Some found
                    \<and> poll_created e c u d ?w2 = (found, snd (listTabs e (poll_world e k ?w2)))))"
        by blast
      have bound: "100 * Suc k \<le> (d - now w) + 99"
        using k t True by arith
      have miss': "\<forall>j<Suc k. now (poll_world e j w) < d
             \<and> find (\<lambda>t. targetId t = c) (listed e (poll_world e j w)) = None"
      proof (intro allI impI)
        fix j assume "j < Suc k"
        show "now (poll_world e j w) < d
             \<and> find (\<lambda>t. targetId t = c) (listed e (poll_world e j w)) = None"
        proof (cases j)
          case 0
          with True None show ?thesis by simp
        next
          case (Suc j')
          with \<open>j < Suc k\<close> have "j' < k" by simp
          with miss Suc show ?thesis by simp
        qed
      qed
      from alt have alt': "(d \<le> now (poll_world e (Suc k) w)
              \<and> poll_created e c u d w = (stub_tab c u, poll_world e (Suc k) w))
            \<or> (now (poll_world e (Suc k) w) < d
              \<and> (\<exists>found. find (\<lambda>t. targetId t = c) (listed e (poll_world e (Suc k) w)) = Some found
                    \<and> poll_created e c u d w = (found, snd (listTabs e (poll_world e (Suc k) w)))))"
        unfolding r by simp
      from bound miss' alt' show ?thesis by blast
    qed
  qed
qed

lemma poll_never_listed:
  "\<forall>w'. find (\<lambda>t. targetId t = c) (listed e w') = None \<Longrightarrow> fst (poll_created e c u d w) = stub_tab c u"
proof (induction e c u d w rule: poll_created.induct)
  case (1 e c u d w)
  show ?case
  proof (cases "now w < d")
    case False
    then show ?thesis by (simp add: poll_created.simps)
  next
    case True
    from "1.prems" have n: "find (\<lambda>t. targetId t = c) (case fst (listTabs e w) of Inl err \<Rightarrow> [] | Inr ts \<Rightarrow> ts) = None"
      by (simp add: listed_def)
    have "poll_created e c u d w = poll_created e c u d (sleep e 100 (snd (listTabs e w)))"
      using True n by (simp add: poll_created.simps [of e c u d w] Let_def)
    with "1.IH" [OF True refl refl n "1.prems"] show ?thesis by simp
  qed
qed


lemma openTab_via_cdp:
  assumes "getState w = Some current"
    and "createTargetViaCdp e (seqno w) (cdpPort current) u = Inr tid" and "tid \<noteq> []"
  shows "openTab e u w
           = (Inr (fst (poll_created e tid u (now (issue e (CreateTargetViaCdp (cdpPort current) u) w) + 2000)
                          (issue e (CreateTargetViaCdp (cdpPort current) u) w))),
              snd (poll_created e tid u (now (issue e (CreateTargetViaCdp (cdpPort current) u) w) + 2000)
                          (issue e (CreateTargetViaCdp (cdpPort current) u) w)))"
  using assms by (simp add: openTab_def state_def Let_def split: prod.splits)

lemma openTab_fallback_405:
  assumes "getState w = Some current"
    and "createTargetViaCdp e (seqno w) (cdpPort current) u = Inl err"
    and "json_new e (Suc (seqno w)) PUT (new_url (cdpPort current) u) = Response False 405 body"
  shows "calls (snd (openTab e u w))
           = calls w @ [CreateTargetViaCdp (cdpPort current) u,
                        Fetch PUT (new_url (cdpPort current) u),
                        Fetch GET (new_url (cdpPort current) u)]"
    and "fst (openTab e u w)
           = (case fetchJson (json_new e (Suc (Suc (seqno w))) GET (new_url (cdpPort current) u)) of
                Inl x \<Rightarrow> Inl x
              | Inr c \<Rightarrow> if truthy (cdp_id c) then Inr (created_tab u c)
                         else Inl (Error ''Failed to open tab (missing id)''))"
proof -
  have inc: "includesStr (Error (''HTTP '' @ dec 405)) ''HTTP 405''"
    by (simp add: Error_def dec.simps digit_def)
  have put: "fetchJson (json_new e (Suc (seqno w)) PUT (new_url (cdpPort current) u))
               = Inl (Error (''HTTP '' @ dec 405))"
    by (simp add: assms(3) fetchJson_def)
  have s1: "seqno (issue e c w) = Suc (seqno w)" for c w
    by (simp add: seqno_def issue_def)
  show "calls (snd (openTab e u w))
           = calls w @ [CreateTargetViaCdp (cdpPort current) u,
                        Fetch PUT (new_url (cdpPort current) u),
                        Fetch GET (new_url (cdpPort current) u)]"
    using assms(1,2) inc
    by (simp add: openTab_def state_def Let_def s1 put calls_issue split: sum.splits)
  show "fst (openTab e u w)
           = (case fetchJson (json_new e (Suc (Suc (seqno w))) GET (new_url (cdpPort current) u)) of
                Inl x \<Rightarrow> Inl x
              | Inr c \<Rightarrow> if truthy (cdp_id c) then Inr (created_tab u c)
                         else Inl (Error ''Failed to open tab (missing id)''))"
    using assms(1,2) inc
    by (simp add: openTab_def state_def Let_def s1 put split: sum.splits)
qed

lemma openTab_fallback_put:
  assumes "getState w = Some current"
    and "createTargetViaCdp e (seqno w) (cdpPort current) u = Inl err"
    and "fetchJson (json_new e (Suc (seqno w)) PUT (new_url (cdpPort current) u)) = Inr c"
  shows "calls (snd (openTab e u w))
           = calls w @ [CreateTargetViaCdp (cdpPort current) u,
                        Fetch PUT (new_url (cdpPort current) u)]"
    and "fst (openTab e u w)
           = (if truthy (cdp_id c) then Inr (created_tab u c)
              else Inl (Error ''Failed to open tab (missing id)''))"
  using assms
  by (simp_all add: openTab_def state_def Let_def seqno_def issue_def)

lemma openTab_fallback_id:
  assumes "getState w = Some current"
    and "createTargetViaCdp e (seqno w) (cdpPort current) u = Inl err"
    and "fst (openTab e u w) = Inr tab"
  shows "targetId tab \<noteq> []"
proof -
  have "truthy (cdp_id c) \<Longrightarrow> targetId (created_tab u c) \<noteq> []" for c
    by (cases "cdp_id c") (simp_all add: created_tab_def)
  then show ?thesis
    using assms
    by (auto simp: openTab_def state_def Let_def split: sum.splits if_splits)
qed

lemma openTab_first_call:
  assumes "getState w = Some current"
  shows "\<exists>rest. calls (snd (openTab e u w)) = calls w @ CreateTargetViaCdp (cdpPort current) u # rest"
proof (cases "truthy (case createTargetViaCdp e (seqno w) (cdpPort current) u of
                        Inl err \<Rightarrow> None | Inr tid \<Rightarrow> Some tid)")
  case True
  then obtain tid where tid: "createTargetViaCdp e (seqno w) (cdpPort current) u = Inr tid" "tid \<noteq> []"
    by (auto split: sum.splits)
  let ?w1 = "issue e (CreateTargetViaCdp (cdpPort current) u) w"
  have st: "getState ?w1 = Some current" using assms by (simp add: getState_issue)
  have stk: "getState (poll_world e k ?w1) = Some current" for k
    by (simp add: getState_poll_world st)
  from poll_exact [of "now ?w1 + 2000" ?w1 e tid u]
  obtain k where "snd (poll_created e tid u (now ?w1 + 2000) ?w1) = poll_world e k ?w1
      \<or> snd (poll_created e tid u (now ?w1 + 2000) ?w1) = snd (listTabs e (poll_world e k ?w1))"
    by force
  then have "calls (snd (poll_created e tid u (now ?w1 + 2000) ?w1))
        = calls ?w1 @ poll_calls k (cdpPort current)
      \<or> calls (snd (poll_created e tid u (now ?w1 + 2000) ?w1))
        = calls ?w1 @ poll_calls k (cdpPort current) @ [Fetch GET (list_url (cdpPort current))]"
    using calls_poll_world [OF st, of e k] calls_listTabs [OF stk, of e k] by auto
  then show ?thesis
    unfolding openTab_via_cdp [OF assms tid] by (auto simp: calls_issue)
next
  case False
  then show ?thesis
    using assms
    by (auto simp: openTab_def state_def Let_def calls_issue split: sum.splits)
qed

text \<open>
  C5. With the control plane started, \<open>openTab\<close> first attempts the raw-protocol
  creation call. If that call fails, it issues a PUT on the create-tab endpoint; on an
  HTTP 405 reply it retries the same URL with GET; the reply's tab is returned when its
  id is non-empty and the call fails when the id is missing, so a tab returned by the
  fallback has a non-empty id. If the raw call gave a non-empty id, the call never
  fails and polls the listing: round \<open>j\<close> starts in the world \<open>poll_world j\<close>, at
  least 100 ms after the round before, having issued \<open>j\<close> listings and \<open>j\<close> waits of
  100 ms. After some \<open>k \<le> 20\<close> rounds that started before the deadline of 2000 ms and
  did not list the id, either round \<open>k\<close> starts before the deadline and lists the id,
  and the listed tab is returned, or the deadline has passed and the stub tab (that id,
  the requested url, type "page") is returned.
\<close>

theorem openTab_protocol:
  assumes "getState w = Some current" and "getState w' = Some current'"
  shows
    "(\<exists>rest. calls (snd (openTab e u w)) = calls w @ CreateTargetViaCdp (cdpPort current) u # rest)
   \<and> (createTargetViaCdp e (seqno w) (cdpPort current) u = Inl err
        \<and> json_new e (Suc (seqno w)) PUT (new_url (cdpPort current) u) = Response False 405 body
      \<longrightarrow> calls (snd (openTab e u w))
            = calls w @ [CreateTargetViaCdp (cdpPort current) u,
                         Fetch PUT (new_url (cdpPort current) u),
                         Fetch GET (new_url (cdpPort current) u)]
          \<and> fst (openTab e u w)
            = (case fetchJson (json_new e (Suc (Suc (seqno w))) GET (new_url (cdpPort current) u)) of
                 Inl x \<Rightarrow> Inl x
               | Inr c \<Rightarrow> if truthy (cdp_id c) then Inr (created_tab u c)
                          else Inl (Error ''Failed to open tab (missing id)'')))
   \<and> (createTargetViaCdp e (seqno w) (cdpPort current) u = Inl err
        \<and> fetchJson (json_new e (Suc (seqno w)) PUT (new_url (cdpPort current) u)) = Inr c
      \<longrightarrow> calls (snd (openTab e u w))
            = calls w @ [CreateTargetViaCdp (cdpPort current) u,
                         Fetch PUT (new_url (cdpPort current) u)]
          \<and> fst (openTab e u w)
            = (if truthy (cdp_id c) then Inr (created_tab u c)
               else Inl (Error ''Failed to open tab (missing id)'')))
   \<and> (createTargetViaCdp e (seqno w) (cdpPort current) u = Inl err \<and> fst (openTab e u w) = Inr tab
      \<longrightarrow> targetId tab \<noteq> [])
   \<and> (createTargetViaCdp e' (seqno w') (cdpPort current') u' = Inr tid \<and> tid \<noteq> []
        \<and> w1 = issue e' (CreateTargetViaCdp (cdpPort current') u') w'
      \<longrightarrow> (\<exists>k\<le>20.
             (\<forall>j<k. now (poll_world e' j w1) < now w1 + 2000
                   \<and> find (\<lambda>t. targetId t = tid) (listed e' (poll_world e' j w1)) = None)
             \<and> ((now w1 + 2000 \<le> now (poll_world e' k w1)
                  \<and> openTab e' u' w' = (Inr (stub_tab tid u'), poll_world e' k w1))
                \<or> (now (poll_world e' k w1) < now w1 + 2000
                  \<and> (\<exists>found. find (\<lambda>t. targetId t = tid) (listed e' (poll_world e' k w1)) = Some found
                        \<and> openTab e' u' w' = (Inr found, snd (listTabs e' (poll_world e' k w1)))))))
          \<and> (\<forall>j. now (poll_world e' j w1) + 100 \<le> now (poll_world e' (Suc j) w1)
                 \<and> calls (poll_world e' j w1)
                     = calls w' @ [CreateTargetViaCdp (cdpPort current') u'] @ poll_calls j (cdpPort current'))
          \<and> ((\<forall>v. find (\<lambda>t. targetId t = tid) (listed e' v) = None)
               \<longrightarrow> fst (openTab e' u' w') = Inr (stub_tab tid u')))"
proof (intro conjI impI)
  show "\<exists>rest. calls (snd (openTab e u w)) = calls w @ CreateTargetViaCdp (cdpPort current) u # rest"
    by (rule openTab_first_call [OF assms(1)])
next
  assume h: "createTargetViaCdp e (seqno w) (cdpPort current) u = Inl err
        \<and> json_new e (Suc (seqno w)) PUT (new_url (cdpPort current) u) = Response False 405 body"
  then have a: "createTargetViaCdp e (seqno w) (cdpPort current) u = Inl err"
    and b: "json_new e (Suc (seqno w)) PUT (new_url (cdpPort current) u) = Response False 405 body"
    by simp_all
  show "calls (snd (openTab e u w))
            = calls w @ [CreateTargetViaCdp (cdpPort current) u,
                         Fetch PUT (new_url (cdpPort current) u),
                         Fetch GET (new_url (cdpPort current) u)]"
    by (rule openTab_fallback_405(1) [OF assms(1) a b])
  show "fst (openTab e u w)
            = (case fetchJson (json_new e (Suc (Suc (seqno w))) GET (new_url (cdpPort current) u)) of
                 Inl x \<Rightarrow> Inl x
               | Inr c \<Rightarrow> if truthy (cdp_id c) then Inr (created_tab u c)
                          else Inl (Error ''Failed to open tab (missing id)''))"
    by (rule openTab_fallback_405(2) [OF assms(1) a b])
next
  assume h: "createTargetViaCdp e (seqno w) (cdpPort current) u = Inl err
        \<and> fetchJson (json_new e (Suc (seqno w)) PUT (new_url (cdpPort current) u)) = Inr c"
  then have a: "createTargetViaCdp e (seqno w) (cdpPort current) u = Inl err"
    and b: "fetchJson (json_new e (Suc (seqno w)) PUT (new_url (cdpPort current) u)) = Inr c"
    by simp_all
  show "calls (snd (openTab e u w))
            = calls w @ [CreateTargetViaCdp (cdpPort current) u,
                         Fetch PUT (new_url (cdpPort current) u)]"
    by (rule openTab_fallback_put(1) [OF assms(1) a b])
  show "fst (openTab e u w)
            = (if truthy (cdp_id c) then Inr (created_tab u c)
               else Inl (Error ''Failed to open tab (missing id)''))"
    by (rule openTab_fallback_put(2) [OF assms(1) a b])
next
  assume "createTargetViaCdp e (seqno w) (cdpPort current) u = Inl err \<and> fst (openTab e u w) = Inr tab"
  then show "targetId tab \<noteq> []"
    using openTab_fallback_id [OF assms(1)] by blast
next
  assume h: "createTargetViaCdp e' (seqno w') (cdpPort current') u' = Inr tid \<and> tid \<noteq> []
        \<and> w1 = issue e' (CreateTargetViaCdp (cdpPort current') u') w'"
  then have a: "createTargetViaCdp e' (seqno w') (cdpPort current') u' = Inr tid" and b: "tid \<noteq> []"
    and w1: "w1 = issue e' (CreateTargetViaCdp (cdpPort current') u') w'"
    by blast+
  have eq: "openTab e' u' w'
      = (Inr (fst (poll_created e' tid u' (now w1 + 2000) w1)),
         snd (poll_created e' tid u' (now w1 + 2000) w1))"
    unfolding w1 by (rule openTab_via_cdp [OF assms(2) a b])
  from poll_exact [of "now w1 + 2000" w1 e' tid u']
  obtain k where k: "100 * k \<le> 2000 + 99"
    and miss: "\<forall>j<k. now (poll_world e' j w1) < now w1 + 2000
             \<and> find (\<lambda>t. targetId t = tid) (listed e' (poll_world e' j w1)) = None"
    and alt: "(now w1 + 2000 \<le> now (poll_world e' k w1)
          \<and> poll_created e' tid u' (now w1 + 2000) w1 = (stub_tab tid u', poll_world e' k w1))
        \<or> (now (poll_world e' k w1) < now w1 + 2000
          \<and> (\<exists>found. find (\<lambda>t. targetId t = tid) (listed e' (poll_world e' k w1)) = Some found
                \<and> poll_created e' tid u' (now w1 + 2000) w1
                    = (found, snd (listTabs e' (poll_world e' k w1)))))"
    by auto
  from k have k20: "k \<le> 20" by simp
  from alt have alt': "(now w1 + 2000 \<le> now (poll_world e' k w1)
                  \<and> openTab e' u' w' = (Inr (stub_tab tid u'), poll_world e' k w1))
                \<or> (now (poll_world e' k w1) < now w1 + 2000
                  \<and> (\<exists>found. find (\<lambda>t. targetId t = tid) (listed e' (poll_world e' k w1)) = Some found
                        \<and> openTab e' u' w' = (Inr found, snd (listTabs e' (poll_world e' k w1)))))"
    unfolding eq by auto
  from k20 miss alt'
  show "\<exists>k\<le>20.
             (\<forall>j<k. now (poll_world e' j w1) < now w1 + 2000
                   \<and> find (\<lambda>t. targetId t = tid) (listed e' (poll_world e' j w1)) = None)
             \<and> ((now w1 + 2000 \<le> now (poll_world e' k w1)
                  \<and> openTab e' u' w' = (Inr (stub_tab tid u'), poll_world e' k w1))
                \<or> (now (poll_world e' k w1) < now w1 + 2000
                  \<and> (\<exists>found. find (\<lambda>t. targetId t = tid) (listed e' (poll_world e' k w1)) = Some found
                        \<and> openTab e' u' w' = (Inr found, snd (listTabs e' (poll_world e' k w1))))))"
    by blast
  have st: "getState w1 = Some current'" unfolding w1 using assms(2) by (simp add: getState_issue)
  show "\<forall>j. now (poll_world e' j w1) + 100 \<le> now (poll_world e' (Suc j) w1)
                 \<and> calls (poll_world e' j w1)
                     = calls w' @ [CreateTargetViaCdp (cdpPort current') u'] @ poll_calls j (cdpPort current')"
  proof (intro allI conjI)
    fix j
    show "now (poll_world e' j w1) + 100 \<le> now (poll_world e' (Suc j) w1)"
      unfolding poll_world_Suc
      using now_listTabs [of "poll_world e' j w1" e']
        now_sleep [of "snd (listTabs e' (poll_world e' j w1))" 100 e'] by simp
    show "calls (poll_world e' j w1)
            = calls w' @ [CreateTargetViaCdp (cdpPort current') u'] @ poll_calls j (cdpPort current')"
      unfolding calls_poll_world [OF st] unfolding w1 by (simp add: calls_issue)
  qed
  {
    assume never: "\<forall>v. find (\<lambda>t. targetId t = tid) (listed e' v) = None"
    show "fst (openTab e' u' w') = Inr (stub_tab tid u')"
      unfolding eq by (simp add: poll_never_listed [OF never])
  }
qed

theorem openTab_protocol_witness:
  "fst (openTab (test_env True (\<lambda>n. test_tabs) (Inl ''Error: cdp disabled'')) ''https://example.com''
         (test_world (Some (test_state False None)) None))
     = Inr \<lparr> targetId = ''newtab1'', title = [], url = ''about:blank'',
             wsUrl = Some ''ws://127.0.0.1/devtools/page/newtab1'', tab_type = Some ''page'' \<rparr>
   \<and> calls (snd (openTab (test_env True (\<lambda>n. test_tabs) (Inl ''Error: cdp disabled''))
         ''https://example.com'' (test_world (Some (test_state False None)) None)))
     = [CreateTargetViaCdp 18792 ''https://example.com'',
        Fetch PUT ''http://127.0.0.1:18792/json/new?https%3A%2F%2Fexample.com'',
        Fetch GET ''http://127.0.0.1:18792/json/new?https%3A%2F%2Fexample.com'']
   \<and> fst (openTab (test_env True (\<lambda>n. []) (Inr ''T1'')) ''https://example.com''
         (test_world (Some (test_state False None)) None))
     = Inr \<lparr> targetId = ''T1'', title = [], url = ''https://example.com'', wsUrl = None,
             tab_type = Some ''page'' \<rparr>
   \<and> openTab (test_env True (\<lambda>n. if n < 4 then [] else test_tabs) (Inr ''abcd1234''))
         ''https://example.com'' (test_world (Some (test_state False None)) None)
     = (Inr (test_listing ! 0),
        (test_world (Some (test_state False None)) None)\<lparr> now := 206,
           calls := [CreateTargetViaCdp 18792 ''https://example.com'',
                     Fetch GET ''http://127.0.0.1:18792/json/list'', SetTimeout 100,
                     Fetch GET ''http://127.0.0.1:18792/json/list'', SetTimeout 100,
                     Fetch GET ''http://127.0.0.1:18792/json/list''] \<rparr>)"
proof -
  let ?e = "test_env True (\<lambda>n. test_tabs) (Inl ''Error: cdp disabled'')"
  let ?e' = "test_env True (\<lambda>n. []) (Inr ''T1'')"
  let ?e2 = "test_env True (\<lambda>n. if n < 4 then [] else test_tabs) (Inr ''abcd1234'')"
  let ?w = "test_world (Some (test_state False None)) None"
  let ?u = "''https://example.com''"
  let ?w1 = "issue ?e2 (CreateTargetViaCdp (cdpPort (test_state False None)) ?u) ?w"
  note ev = listTabs_def state_def fetchJson_def issue_def sleep_def seqno_def Let_def listed_def
    test_world_def test_state_def test_env_def test_config_def list_url_def
    dec.simps digit_def
  have st: "getState ?w = Some (test_state False None)"
    by (simp add: test_world_def)
  have port: "cdpPort (test_state False None) = 18792"
    by (simp add: test_state_def)
  have a: "createTargetViaCdp ?e (seqno ?w) (cdpPort (test_state False None)) ?u
             = Inl ''Error: cdp disabled''"
    and b: "json_new ?e (Suc (seqno ?w)) PUT (new_url (cdpPort (test_state False None)) ?u)
             = Response False 405 (Inr test_newtab)"
    and c: "fetchJson (json_new ?e (Suc (Suc (seqno ?w))) GET
              (new_url (cdpPort (test_state False None)) ?u)) = Inr test_newtab"
    and d: "createTargetViaCdp ?e' (seqno ?w) (cdpPort (test_state False None)) ?u = Inr ''T1''"
    and d2: "createTargetViaCdp ?e2 (seqno ?w) (cdpPort (test_state False None)) ?u = Inr ''abcd1234''"
    by (simp_all add: test_env_def fetchJson_def)
  have never: "\<forall>v. find (\<lambda>t. targetId t = ''T1'') (listed ?e' v) = None"
    by (simp add: listed_def listTabs_def Let_def fetchJson_def test_env_def split: sum.splits)
  have url: "new_url 18792 ?u = ''http://127.0.0.1:18792/json/new?https%3A%2F%2Fexample.com''"
    by (simp add: new_url_def encodeURIComponent_def unreserved_def hexdigit_def dec.simps digit_def)
  have tab: "created_tab ?u test_newtab
               = \<lparr> targetId = ''newtab1'', title = [], url = ''about:blank'',
                   wsUrl = Some ''ws://127.0.0.1/devtools/page/newtab1'', tab_type = Some ''page'' \<rparr>"
    and id: "truthy (cdp_id test_newtab)"
    by (simp_all add: created_tab_def test_newtab_def)
  have r1: "fst (openTab ?e ?u ?w) = Inr (created_tab ?u test_newtab)"
    and r2: "calls (snd (openTab ?e ?u ?w))
      = calls ?w @ [CreateTargetViaCdp (cdpPort (test_state False None)) ?u,
                    Fetch PUT (new_url (cdpPort (test_state False None)) ?u),
                    Fetch GET (new_url (cdpPort (test_state False None)) ?u)]"
    using openTab_protocol [OF st st, where e = ?e and u = ?u
      and err = "''Error: cdp disabled''" and body = "Inr test_newtab"] a b c id
    by simp_all
  have r3: "fst (openTab ?e' ?u ?w) = Inr (stub_tab ''T1'' ?u)"
    using openTab_protocol [OF st st, where e' = ?e' and u' = ?u and tid = "''T1''"
      and ?w1.0 = "issue ?e' (CreateTargetViaCdp (cdpPort (test_state False None)) ?u) ?w"]
      d never by simp
  have p2: "poll_world ?e2 (Suc (Suc 0)) ?w1
      = ?w\<lparr> now := 205,
           calls := [CreateTargetViaCdp 18792 ?u,
                     Fetch GET ''http://127.0.0.1:18792/json/list'', SetTimeout 100,
                     Fetch GET ''http://127.0.0.1:18792/json/list'', SetTimeout 100] \<rparr>"
    by (simp add: ev)
  have m0: "find (\<lambda>t. targetId t = ''abcd1234'') (listed ?e2 (poll_world ?e2 0 ?w1)) = None"
    and m1: "find (\<lambda>t. targetId t = ''abcd1234'') (listed ?e2 (poll_world ?e2 (Suc 0) ?w1)) = None"
    by (simp_all add: ev)
  have hit: "find (\<lambda>t. targetId t = ''abcd1234'') (listed ?e2 (poll_world ?e2 (Suc (Suc 0)) ?w1))
      = Some (test_listing ! 0)"
    unfolding p2 by (simp add: ev test_listing_def test_tabs_def toTab_def)
  have fin: "snd (listTabs ?e2 (poll_world ?e2 (Suc (Suc 0)) ?w1))
      = ?w\<lparr> now := 206,
           calls := [CreateTargetViaCdp 18792 ?u,
                     Fetch GET ''http://127.0.0.1:18792/json/list'', SetTimeout 100,
                     Fetch GET ''http://127.0.0.1:18792/json/list'', SetTimeout 100,
                     Fetch GET ''http://127.0.0.1:18792/json/list''] \<rparr>"
    unfolding p2 by (simp add: ev)
  have t0: "now ?w1 = 1" and t1: "now (poll_world ?e2 (Suc 0) ?w1) = 103"
    by (simp_all add: ev)
  have t2: "now (poll_world ?e2 (Suc (Suc 0)) ?w1) = 205"
    unfolding p2 by simp
  have ne: "''abcd1234'' \<noteq> []" by simp
  note inst = openTab_protocol [OF st st, where e' = ?e2 and u' = ?u and tid = "''abcd1234''"
      and ?w1.0 = ?w1]
  from inst d2 ne
  have "\<exists>k\<le>20.
       (\<forall>j<k. now (poll_world ?e2 j ?w1) < now ?w1 + 2000
             \<and> find (\<lambda>t. targetId t = ''abcd1234'') (listed ?e2 (poll_world ?e2 j ?w1)) = None)
       \<and> ((now ?w1 + 2000 \<le> now (poll_world ?e2 k ?w1)
            \<and> openTab ?e2 ?u ?w = (Inr (stub_tab ''abcd1234'' ?u), poll_world ?e2 k ?w1))
          \<or> (now (poll_world ?e2 k ?w1) < now ?w1 + 2000
            \<and> (\<exists>found. find (\<lambda>t. targetId t = ''abcd1234'') (listed ?e2 (poll_world ?e2 k ?w1)) = Some found
                  \<and> openTab ?e2 ?u ?w = (Inr found, snd (listTabs ?e2 (poll_world ?e2 k ?w1))))))"
    by blast
  then obtain k where miss: "\<forall>j<k. find (\<lambda>t. targetId t = ''abcd1234'') (listed ?e2 (poll_world ?e2 j ?w1)) = None"
    and alt: "(now ?w1 + 2000 \<le> now (poll_world ?e2 k ?w1)
          \<and> openTab ?e2 ?u ?w = (Inr (stub_tab ''abcd1234'' ?u), poll_world ?e2 k ?w1))
        \<or> (now (poll_world ?e2 k ?w1) < now ?w1 + 2000
          \<and> (\<exists>found. find (\<lambda>t. targetId t = ''abcd1234'') (listed ?e2 (poll_world ?e2 k ?w1)) = Some found
                \<and> openTab ?e2 ?u ?w = (Inr found, snd (listTabs ?e2 (poll_world ?e2 k ?w1)))))"
    by blast
  have "\<not> Suc (Suc 0) < k"
    using miss hit by auto
  then have "k = 0 \<or> k = Suc 0 \<or> k = Suc (Suc 0)" by arith
  then have r4: "openTab ?e2 ?u ?w = (Inr (test_listing ! 0), snd (listTabs ?e2 (poll_world ?e2 (Suc (Suc 0)) ?w1)))"
  proof (elim disjE)
    assume "k = 0"
    with alt m0 t0 show ?thesis by simp
  next
    assume "k = Suc 0"
    with alt m1 t0 t1 show ?thesis by simp
  next
    assume "k = Suc (Suc 0)"
    with alt hit t0 t2 show ?thesis by simp
  qed
  show ?thesis
    unfolding r1 r2 r3 r4 fin tab
    by (simp add: st port url stub_tab_def test_world_def)
qed

section \<open>ensureTabAvailable on an empty listing\<close>

lemma ensureBrowserAvailable_reachable:
  assumes "getState w = Some current"
    and "isChromeReachable e (seqno w) (cdpPort current) 300 = Inr True"
  shows "ensureBrowserAvailable e w = (Inr (), issue e (IsChromeReachable (cdpPort current) 300) w)"
  using assms by (simp add: ensureBrowserAvailable_def isReachable_def state_def)

text \<open>
  C10, as amended. On a reachable browser whose first listing is empty,
  \<open>ensureTabAvailable\<close> itself opens \<open>about:blank\<close> and then resolves against the
  refreshed listing. With an absent identifier it returns the first tab of the
  refreshed listing when that listing is not empty and its first tab has a channel
  address; when the refreshed listing is still empty, or its first tab has no channel
  address, it fails with "tab not found". There is no separate no-tabs error.
\<close>

theorem ensureTabAvailable_opens_blank:
  assumes "getState w = Some current"
    and "isChromeReachable e (seqno w) (cdpPort current) 300 = Inr True"
    and "listTabs e (issue e (IsChromeReachable (cdpPort current) 300) w) = (Inr [], w2)"
    and "openTab e ''about:blank'' w2 = (Inr opened, w3)"
    and "listTabs e w3 = (Inr tabs, w4)"
  shows "ensureTabAvailable e tid w = (returnChosen (chooseTab tid tabs), w4)
       \<and> fst (ensureTabAvailable e None w)
           = (case tabs of
                [] \<Rightarrow> Inl (Error ''tab not found'')
              | t # rest \<Rightarrow> if truthy (wsUrl t) then Inr t else Inl (Error ''tab not found''))
       \<and> CreateTargetViaCdp (cdpPort current) ''about:blank''
           \<in> set (calls (snd (ensureTabAvailable e tid w)))"
proof -
  let ?w1 = "issue e (IsChromeReachable (cdpPort current) 300) w"
  have run: "ensureTabAvailable e tid w = (returnChosen (chooseTab tid tabs), w4)" for tid
    using assms(3,4,5)
    by (simp add: ensureTabAvailable_def ensureBrowserAvailable_reachable [OF assms(1,2)])
  have "getState w2 = Some current"
    using getState_listTabs [of e ?w1] assms(1,3) by (simp add: getState_issue)
  from openTab_first_call [OF this, of e "''about:blank''"] assms(4)
  have "CreateTargetViaCdp (cdpPort current) ''about:blank'' \<in> set (calls w3)"
    by auto
  moreover have "set (calls w3) \<subseteq> set (calls w4)"
    using assms(5) by (auto simp: listTabs_def Let_def calls_issue split: sum.splits)
  ultimately have opened: "CreateTargetViaCdp (cdpPort current) ''about:blank'' \<in> set (calls w4)"
    by blast
  show ?thesis
    using opened by (simp add: run choose_absent(1) guarded_def split: list.splits)
qed

theorem ensureTabAvailable_opens_blank_witness:
  "ensureTabAvailable (test_env True (\<lambda>n. if n < 3 then [] else test_tabs) (Inl ''Error: cdp disabled''))
       None (test_world (Some (test_state False None)) None)
     = (Inr (test_listing ! 0),
        (test_world (Some (test_state False None)) None)\<lparr> now := 6,
          calls := [IsChromeReachable 18792 300,
                   Fetch GET ''http://127.0.0.1:18792/json/list'',
                   CreateTargetViaCdp 18792 ''about:blank'',
                   Fetch PUT ''http://127.0.0.1:18792/json/new?about%3Ablank'',
                   Fetch GET ''http://127.0.0.1:18792/json/new?about%3Ablank'',
                   Fetch GET ''http://127.0.0.1:18792/json/list''] \<rparr>)"
proof -
  let ?e = "test_env True (\<lambda>n. if n < 3 then [] else test_tabs) (Inl ''Error: cdp disabled'')"
  let ?w = "test_world (Some (test_state False None)) None"
  let ?w1 = "issue ?e (IsChromeReachable (cdpPort (test_state False None)) 300) ?w"
  let ?w2 = "snd (listTabs ?e ?w1)"
  let ?w3 = "snd (openTab ?e ''about:blank'' ?w2)"
  let ?w4 = "snd (listTabs ?e ?w3)"
  note ev = listTabs_def openTab_def state_def fetchJson_def issue_def seqno_def Let_def
    test_world_def test_state_def test_env_def test_config_def list_url_def new_url_def
    encodeURIComponent_def unreserved_def hexdigit_def dec.simps digit_def Error_def
  have h1: "getState ?w = Some (test_state False None)"
    by (simp add: test_world_def)
  have h2: "isChromeReachable ?e (seqno ?w) (cdpPort (test_state False None)) 300 = Inr True"
    by (simp add: test_env_def)
  have h3: "listTabs ?e ?w1 = (Inr [], ?w2)"
    by (simp add: ev)
  have h4: "openTab ?e ''about:blank'' ?w2 = (Inr (created_tab ''about:blank'' test_newtab), ?w3)"
    by (simp add: ev test_newtab_def)
  have h5: "listTabs ?e ?w3 = (Inr test_listing, ?w4)"
    by (simp add: ev test_listing_def test_newtab_def test_tabs_def toTab_def)
  have w4: "?w4 = (test_world (Some (test_state False None)) None)\<lparr> now := 6,
          calls := [IsChromeReachable 18792 300,
                   Fetch GET ''http://127.0.0.1:18792/json/list'',
                   CreateTargetViaCdp 18792 ''about:blank'',
                   Fetch PUT ''http://127.0.0.1:18792/json/new?about%3Ablank'',
                   Fetch GET ''http://127.0.0.1:18792/json/new?about%3Ablank'',
                   Fetch GET ''http://127.0.0.1:18792/json/list''] \<rparr>"
    by (simp add: ev)
  have first: "returnChosen (chooseTab None test_listing) = Inr (test_listing ! 0)"
    by (simp add: choose_absent(1) guarded_def test_listing_eval)
  show ?thesis
    using ensureTabAvailable_opens_blank [OF h1 h2 h3 h4 h5, of None] first w4
    by simp
qed

text \<open>
  C10 as stated fails: the browser is reachable, the identifier is absent, and
  the listing is empty before and after \<open>about:blank\<close> is opened (the new tab is not
  listed yet); the call fails with "tab not found" for lack of tabs.
\<close>

theorem ensureTabAvailable_fails_without_tabs:
  "ensureTabAvailable (test_env True (\<lambda>n. []) (Inl ''Error: cdp disabled'')) None
       (test_world (Some (test_state False None)) None)
     = (Inl ''Error: tab not found'',
        (test_world (Some (test_state False None)) None)\<lparr> now := 6,
          calls := [IsChromeReachable 18792 300,
                   Fetch GET ''http://127.0.0.1:18792/json/list'',
                   CreateTargetViaCdp 18792 ''about:blank'',
                   Fetch PUT ''http://127.0.0.1:18792/json/new?about%3Ablank'',
                   Fetch GET ''http://127.0.0.1:18792/json/new?about%3Ablank'',
                   Fetch GET ''http://127.0.0.1:18792/json/list''] \<rparr>)"
  by (simp add: ensureTabAvailable_def ensureBrowserAvailable_def isReachable_def
      listTabs_def openTab_def state_def fetchJson_def chooseTab_def returnChosen_def
      issue_def seqno_def Let_def test_world_def test_state_def test_env_def test_config_def
      test_newtab_def list_url_def new_url_def encodeURIComponent_def unreserved_def hexdigit_def
      dec.simps digit_def Error_def)

section \<open>Single-flight connection\<close>



















































section \<open>stop() and the cached connection\<close>












end
